theory Spec2Isabelle
  imports Main "HOL-Library.Sublist" "HOL-Library.AList"
begin

section \<open>Data model\<close>

text \<open>
  The builder classes of \<^verbatim>\<open>src/app_builders\<close>: the base class and its five subclasses.
  A value of this type says which class an instance belongs to, so that a call
  \<^verbatim>\<open>self._method(...)\<close> is resolved as Python resolves it.
\<close>

datatype builder_class =
    ComfyAppBuilder
  | ACEStepComfyAppBuilder
  | FluxComfyAppBuilder
  | KritaComfyAppBuilder
  | QwenComfyAppBuilder
  | WanComfyAppBuilder

text \<open>
  \<^verbatim>\<open>modal.Volume.from_name(name, create_if_missing=...)\<close>: a named handle.
\<close>

datatype volume = Volume_from_name string bool

text \<open>
  The token mapping read from \<^verbatim>\<open>tokens.json\<close>, a dictionary from credential name to secret.
\<close>

type_synonym tokens = "(string \<times> string) list"

text \<open>
  A \<^verbatim>\<open>modal.Image\<close> is an immutable description of container contents; every method
  of it returns a new image that has one more layer. An image is the list of its layers,
  the first layer first.
\<close>

datatype layer =
    Debian_slim string
  | Apt_install string
  | Pip_install string
  | Run_commands "string list"
  | Add_local_python_source string bool
  | Add_local_file string string bool
  | Env "(string \<times> string) list"
  | Run_function builder_class "(string \<times> volume) list" bool tokens

type_synonym image = "layer list"

definition debian_slim :: "string \<Rightarrow> image" where
  "debian_slim python_version = [Debian_slim python_version]"

definition apt_install :: "image \<Rightarrow> string \<Rightarrow> image" where
  "apt_install img pkg = img @ [Apt_install pkg]"

definition pip_install :: "image \<Rightarrow> string \<Rightarrow> image" where
  "pip_install img pkg = img @ [Pip_install pkg]"

definition run_commands :: "image \<Rightarrow> string list \<Rightarrow> image" where
  "run_commands img cmds = img @ [Run_commands cmds]"

definition add_local_python_source :: "image \<Rightarrow> string \<Rightarrow> bool \<Rightarrow> image" where
  "add_local_python_source img module copy = img @ [Add_local_python_source module copy]"

definition add_local_file :: "image \<Rightarrow> string \<Rightarrow> string \<Rightarrow> bool \<Rightarrow> image" where
  "add_local_file img local remote copy = img @ [Add_local_file local remote copy]"

definition env :: "image \<Rightarrow> (string \<times> string) list \<Rightarrow> image" where
  "env img vars = img @ [Env vars]"

text \<open>
  \<^verbatim>\<open>image.run_function(self._hf_download, volumes=..., force_build=..., kwargs={"tokens": tokens})\<close>:
  the bound method is recorded by the class of \<^verbatim>\<open>self\<close>.
\<close>

definition run_function ::
  "image \<Rightarrow> builder_class \<Rightarrow> (string \<times> volume) list \<Rightarrow> bool \<Rightarrow> tokens \<Rightarrow> image" where
  "run_function img f vols force_build toks = img @ [Run_function f vols force_build toks]"

text \<open>The fields that \<^verbatim>\<open>__init__\<close> sets on a builder instance.\<close>

record builder =
  cls :: builder_class
  gpu :: string
  app_name :: string
  output_vol_name :: string
  comfy_dir :: string
  comfy_models_dir :: string
  comfy_output_dir :: string
  cache_dir :: string
  self_image :: "image option"
  self_volumes :: "(string \<times> volume) list"

text \<open>
  The exceptions that end a run: the \<^verbatim>\<open>ValueError\<close> of the entry point, the \<^verbatim>\<open>KeyError\<close> of a
  dictionary lookup with the missing key, the \<^verbatim>\<open>OSError\<close> of \<^verbatim>\<open>open\<close> with the file name, any
  exception raised inside the model-hub client, and the \<^verbatim>\<open>CalledProcessError\<close> of
  \<^verbatim>\<open>subprocess.run(..., check=True)\<close> with the exit status.
\<close>

datatype error =
    ValueError string
  | KeyError string
  | OSError string
  | HubError
  | CalledProcessError int

section \<open>Constructors\<close>

definition ComfyAppBuilder_init :: builder where
  "ComfyAppBuilder_init =
     (let d = ''/root/comfy/ComfyUI'' in
      \<lparr> cls = ComfyAppBuilder,
        gpu = ''T4'',
        app_name = ''comfyui'',
        output_vol_name = ''comfyui-output'',
        comfy_dir = d,
        comfy_models_dir = d @ ''/models'',
        comfy_output_dir = d @ ''/output'',
        cache_dir = ''/cache'',
        self_image = None,
        self_volumes = [] \<rparr>)"

definition ACEStepComfyAppBuilder_init :: builder where
  "ACEStepComfyAppBuilder_init =
     ComfyAppBuilder_init
       \<lparr> cls := ACEStepComfyAppBuilder,
         gpu := ''L40S'',
         app_name := ''ace-step-comfyui'',
         output_vol_name := ''ace-step-comfyui-output'' \<rparr>"

definition FluxComfyAppBuilder_init :: builder where
  "FluxComfyAppBuilder_init =
     ComfyAppBuilder_init
       \<lparr> cls := FluxComfyAppBuilder,
         gpu := ''T4'',
         app_name := ''flux-comfyui'',
         output_vol_name := ''flux-comfyui-output'' \<rparr>"

definition KritaComfyAppBuilder_init :: builder where
  "KritaComfyAppBuilder_init =
     ComfyAppBuilder_init
       \<lparr> cls := KritaComfyAppBuilder,
         gpu := ''T4'',
         app_name := ''krita-comfyui'',
         output_vol_name := ''krita-comfyui-output'' \<rparr>"

definition QwenComfyAppBuilder_init :: builder where
  "QwenComfyAppBuilder_init =
     ComfyAppBuilder_init
       \<lparr> cls := QwenComfyAppBuilder,
         gpu := ''A100-80GB'',
         app_name := ''qwen-comfyui'',
         output_vol_name := ''qwen-comfyui-output'' \<rparr>"

definition WanComfyAppBuilder_init :: builder where
  "WanComfyAppBuilder_init =
     ComfyAppBuilder_init
       \<lparr> cls := WanComfyAppBuilder,
         gpu := ''L40S'',
         app_name := ''wan-comfyui'',
         output_vol_name := ''wan-comfyui-output'' \<rparr>"

text \<open>Calling a class: \<^verbatim>\<open>C()\<close>.\<close>

fun new :: "builder_class \<Rightarrow> builder" where
  "new ComfyAppBuilder = ComfyAppBuilder_init"
| "new ACEStepComfyAppBuilder = ACEStepComfyAppBuilder_init"
| "new FluxComfyAppBuilder = FluxComfyAppBuilder_init"
| "new KritaComfyAppBuilder = KritaComfyAppBuilder_init"
| "new QwenComfyAppBuilder = QwenComfyAppBuilder_init"
| "new WanComfyAppBuilder = WanComfyAppBuilder_init"

section \<open>The entry point's registry\<close>

definition APP_REGISTRY_items :: "(string \<times> builder_class) list" where
  "APP_REGISTRY_items =
     [(''ace-step'', ACEStepComfyAppBuilder),
      (''flux'', FluxComfyAppBuilder),
      (''krita'', KritaComfyAppBuilder),
      (''qwen'', QwenComfyAppBuilder),
      (''wan'', WanComfyAppBuilder)]"

definition APP_REGISTRY :: "string \<rightharpoonup> builder_class" where
  "APP_REGISTRY = map_of APP_REGISTRY_items"



section \<open>Python string methods\<close>

text \<open>
  A Python \<^verbatim>\<open>str\<close> is a sequence of code points; a \<^typ>\<open>char\<close> here is a code point
  below 256, and \<^verbatim>\<open>str.isspace\<close>, \<^verbatim>\<open>str.lower\<close> and \<^verbatim>\<open>str.strip\<close> are given on that range:
  the white space is U+0009..U+000D, U+001C..U+0020, U+0085 and U+00A0, the upper-case
  letters are U+0041..U+005A and U+00C0..U+00DE without U+00D7, each 32 below its
  lower-case letter.
\<close>

definition isspace :: "char \<Rightarrow> bool" where
  "isspace c =
     (let n = (of_char c :: nat)
      in (9 \<le> n \<and> n \<le> 13) \<or> (28 \<le> n \<and> n \<le> 32) \<or> n = 133 \<or> n = 160)"

definition lower_char :: "char \<Rightarrow> char" where
  "lower_char c =
     (let n = (of_char c :: nat)
      in if (65 \<le> n \<and> n \<le> 90) \<or> (192 \<le> n \<and> n \<le> 222 \<and> n \<noteq> 215)
         then char_of (n + 32) else c)"

definition lower :: "string \<Rightarrow> string" where
  "lower s = map lower_char s"

definition strip :: "string \<Rightarrow> string" where
  "strip s = rev (dropWhile isspace (rev (dropWhile isspace s)))"

text \<open>\<^verbatim>\<open>str(n)\<close> for a natural number and \<^verbatim>\<open>s.zfill(width)\<close>.\<close>

definition digit_char :: "nat \<Rightarrow> char" where
  "digit_char d = char_of (48 + d)"

function str :: "nat \<Rightarrow> string" where
  "str n = (if n < 10 then [digit_char n] else str (n div 10) @ [digit_char (n mod 10)])"
  by pat_completeness auto
termination
  by (relation "measure id") auto

declare str.simps [simp del]

definition zfill :: "string \<Rightarrow> nat \<Rightarrow> string" where
  "zfill s width =
     (if width \<le> length s then s
      else (case s of
              [] \<Rightarrow> replicate width CHR ''0''
            | c # r \<Rightarrow>
                if c = CHR ''+'' \<or> c = CHR ''-''
                then c # replicate (width - length s) CHR ''0'' @ r
                else replicate (width - length s) CHR ''0'' @ s))"

section \<open>The base builder: \<^verbatim>\<open>comfy_app_builder.py\<close>\<close>

definition ComfyAppBuilder_build_image :: "builder \<Rightarrow> image" where
  "ComfyAppBuilder_build_image self =
     (let img = debian_slim ''3.11'';
          img = apt_install img ''git'';
          img = apt_install img ''wget'';
          img = pip_install img ''fastapi[standard]==0.115.4'';
          img = pip_install img ''comfy-cli'';
          img = pip_install img ''huggingface_hub[hf_transfer]'';
          img = run_commands img [''comfy --skip-prompt install --fast-deps --nvidia'']
      in img)"

definition ComfyAppBuilder_post_install_dep :: "builder \<Rightarrow> image \<Rightarrow> image" where
  "ComfyAppBuilder_post_install_dep self img = img"

definition ComfyAppBuilder_install_comfy_nodes :: "builder \<Rightarrow> image \<Rightarrow> image" where
  "ComfyAppBuilder_install_comfy_nodes self img = img"

definition ComfyAppBuilder_copy_files :: "builder \<Rightarrow> image \<Rightarrow> image" where
  "ComfyAppBuilder_copy_files self img =
     (let img = add_local_python_source img ''comfy_utils'' True
      in add_local_file img ''tokens.json'' ''/root/tokens.json'' True)"

section \<open>The subclasses' image stages\<close>

definition ACEStepComfyAppBuilder_build_image :: "builder \<Rightarrow> image" where
  "ACEStepComfyAppBuilder_build_image self =
     (let img = ComfyAppBuilder_build_image self;
          img = apt_install img ''sox'';
          img = apt_install img ''ffmpeg'';
          img = apt_install img ''libportaudio2'';
          img = pip_install img ''sounddevice'';
          img = pip_install img ''easydict'';
          img = pip_install img ''torch-complex''
      in img)"

definition ACEStepComfyAppBuilder_post_install_dep :: "builder \<Rightarrow> image \<Rightarrow> image" where
  "ACEStepComfyAppBuilder_post_install_dep self img =
     (let img = ComfyAppBuilder_post_install_dep self img
      in pip_install img ''numpy==2.2'')"

definition ACEStepComfyAppBuilder_install_comfy_nodes :: "builder \<Rightarrow> image \<Rightarrow> image" where
  "ACEStepComfyAppBuilder_install_comfy_nodes self img =
     (let img = ComfyAppBuilder_install_comfy_nodes self img;
          img = run_commands img
                  [''comfy node install --fast-deps ace-step'',
                   ''comfy node install --fast-deps audiotools'',
                   ''comfy node install --fast-deps ComfyUI-Qwen3'']
      in img)"

definition KritaComfyAppBuilder_build_image :: "builder \<Rightarrow> image" where
  "KritaComfyAppBuilder_build_image self =
     (let img = ComfyAppBuilder_build_image self;
          img = apt_install img ''libgl1'';
          img = apt_install img ''libglib2.0-0''
      in img)"

definition KritaComfyAppBuilder_install_comfy_nodes :: "builder \<Rightarrow> image \<Rightarrow> image" where
  "KritaComfyAppBuilder_install_comfy_nodes self img =
     (let img = ComfyAppBuilder_install_comfy_nodes self img;
          img = run_commands img
                  [''comfy node install --fast-deps comfyui_controlnet_aux'',
                   ''comfy node install --fast-deps comfyui_ipadapter_plus'',
                   ''comfy node install --fast-deps comfyui-inpaint-nodes'',
                   ''comfy node install --fast-deps comfyui-tooling-nodes'']
      in img)"

definition QwenComfyAppBuilder_install_comfy_nodes :: "builder \<Rightarrow> image \<Rightarrow> image" where
  "QwenComfyAppBuilder_install_comfy_nodes self img =
     (let img = ComfyAppBuilder_install_comfy_nodes self img;
          img = run_commands img
                  [''comfy node install --fast-deps ComfyUI-Qwen-VL'',
                   ''comfy node install --fast-deps comfyui-custom-scripts'']
      in img)"

definition WanComfyAppBuilder_install_comfy_nodes :: "builder \<Rightarrow> image \<Rightarrow> image" where
  "WanComfyAppBuilder_install_comfy_nodes self img =
     (let img = ComfyAppBuilder_install_comfy_nodes self img;
          img = run_commands img
                  [''comfy node install --fast-deps ComfyUI-GGUF'',
                   ''comfy node install --fast-deps ComfyUI-WanStartEndFramesNative'']
      in img)"

section \<open>Method resolution\<close>

text \<open>
  \<^verbatim>\<open>self._build_image()\<close> and the other stage calls of the pipeline run the method of the
  class of \<^verbatim>\<open>self\<close>: the subclass's where it overrides the stage, the base class's otherwise.
\<close>

definition build_image :: "builder \<Rightarrow> image" where
  "build_image self =
     (case cls self of
        ACEStepComfyAppBuilder \<Rightarrow> ACEStepComfyAppBuilder_build_image self
      | KritaComfyAppBuilder \<Rightarrow> KritaComfyAppBuilder_build_image self
      | _ \<Rightarrow> ComfyAppBuilder_build_image self)"

definition install_comfy_nodes :: "builder \<Rightarrow> image \<Rightarrow> image" where
  "install_comfy_nodes self img =
     (case cls self of
        ACEStepComfyAppBuilder \<Rightarrow> ACEStepComfyAppBuilder_install_comfy_nodes self img
      | KritaComfyAppBuilder \<Rightarrow> KritaComfyAppBuilder_install_comfy_nodes self img
      | QwenComfyAppBuilder \<Rightarrow> QwenComfyAppBuilder_install_comfy_nodes self img
      | WanComfyAppBuilder \<Rightarrow> WanComfyAppBuilder_install_comfy_nodes self img
      | _ \<Rightarrow> ComfyAppBuilder_install_comfy_nodes self img)"

definition post_install_dep :: "builder \<Rightarrow> image \<Rightarrow> image" where
  "post_install_dep self img =
     (case cls self of
        ACEStepComfyAppBuilder \<Rightarrow> ACEStepComfyAppBuilder_post_install_dep self img
      | _ \<Rightarrow> ComfyAppBuilder_post_install_dep self img)"

definition copy_files :: "builder \<Rightarrow> image \<Rightarrow> image" where
  "copy_files self img = ComfyAppBuilder_copy_files self img"

section \<open>The pipeline\<close>

text \<open>
  \<^verbatim>\<open>_download_models\<close> opens and parses \<^verbatim>\<open>tokens.json\<close> first. The argument
  \<open>tokens_json\<close> is the content of that file, a JSON object of strings, and \<open>None\<close> when
  the file cannot be opened.
\<close>

definition download_models ::
  "builder \<Rightarrow> image \<Rightarrow> bool \<Rightarrow> tokens option \<Rightarrow> error + image \<times> volume" where
  "download_models self img redownload_models tokens_json =
     (case tokens_json of
        None \<Rightarrow> Inl (OSError ''tokens.json'')
      | Some toks \<Rightarrow>
          let vol = Volume_from_name ''hf-hub-cache'' True;
              img = env img [(''HF_HUB_ENABLE_HF_TRANSFER'', ''1'')];
              img = run_function img (cls self) [(cache_dir self, vol)] redownload_models toks
          in Inr (img, vol))"

definition create_output_vol :: "builder \<Rightarrow> image \<Rightarrow> image \<times> volume" where
  "create_output_vol self img =
     (let output_vol = Volume_from_name (output_vol_name self) True;
          img = run_commands img [''rm -rf '' @ comfy_output_dir self]
      in (img, output_vol))"

definition build_image_and_volumes :: "builder \<Rightarrow> bool \<Rightarrow> tokens option \<Rightarrow> error + builder" where
  "build_image_and_volumes self redownload_models tokens_json =
     (let img = build_image self;
          img = install_comfy_nodes self img;
          img = post_install_dep self img;
          img = copy_files self img
      in case download_models self img redownload_models tokens_json of
           Inl e \<Rightarrow> Inl e
         | Inr (img, cache_vol) \<Rightarrow>
             (case create_output_vol self img of
                (img, output_vol) \<Rightarrow>
                  Inr (self \<lparr> self_image := Some img,
                              self_volumes :=
                                AList.update (comfy_output_dir self) output_vol
                                  (AList.update (cache_dir self) cache_vol []) \<rparr>)))"

text \<open>\<^verbatim>\<open>modal.App(name=..., image=...)\<close>.\<close>

record app =
  name :: string
  app_image :: "image option"

definition build_app :: "builder \<Rightarrow> bool \<Rightarrow> tokens option \<Rightarrow> error + builder \<times> app" where
  "build_app self redownload_models tokens_json =
     (case build_image_and_volumes self redownload_models tokens_json of
        Inl e \<Rightarrow> Inl e
      | Inr self \<Rightarrow> Inr (self, \<lparr> name = app_name self, app_image = self_image self \<rparr>))"

definition get_volumes ::
  "builder \<Rightarrow> bool \<Rightarrow> tokens option \<Rightarrow> error + builder \<times> (string \<times> volume) list" where
  "get_volumes self redownload_models tokens_json =
     (if self_volumes self = []
      then (case build_image_and_volumes self redownload_models tokens_json of
              Inl e \<Rightarrow> Inl e
            | Inr self \<Rightarrow> Inr (self, self_volumes self))
      else Inr (self, self_volumes self))"

definition print_output_volume_usage :: "builder \<Rightarrow> string list" where
  "print_output_volume_usage self =
     [''`modal volume get '' @ output_vol_name self @ '' <file>` to download output generations'',
      ''`modal volume delete '' @ output_vol_name self @ '' -y` to delete the output volume'']"

section \<open>The entry point: \<^verbatim>\<open>main.py\<close>\<close>

text \<open>
  The function registered by the decorators of \<^verbatim>\<open>ui\<close>, and what the module has done
  when its top-level code ends or raises: the builder it instantiated, the app it built,
  the lines it printed and the web function it registered.
\<close>

record web_function =
  max_containers :: nat
  fn_gpu :: string
  fn_volumes :: "(string \<times> volume) list"
  max_inputs :: nat
  port :: nat
  startup_timeout :: nat
  launch :: string

record module_state =
  app_builder :: "builder option"
  built_app :: "app option"
  stdout :: "string list"
  ui :: "web_function option"

definition initial_state :: module_state where
  "initial_state = \<lparr> app_builder = None, built_app = None, stdout = [], ui = None \<rparr>"

text \<open>
  \<open>environ_APP\<close> is \<^verbatim>\<open>os.environ\<close> at the key \<^verbatim>\<open>APP\<close>, \<open>None\<close> when the variable is unset.
  The result is the exception that ends the module, if any, and the state reached.
\<close>

definition main :: "string option \<Rightarrow> tokens option \<Rightarrow> error option \<times> module_state" where
  "main environ_APP tokens_json =
     (case environ_APP of
        None \<Rightarrow> (Some (ValueError ''Environment variable `APP` was not set''), initial_state)
      | Some app_name' \<Rightarrow>
          let key = strip (lower app_name') in
          (case APP_REGISTRY key of
             None \<Rightarrow> (Some (KeyError key), initial_state)
           | Some C \<Rightarrow>
               let st = initial_state \<lparr> app_builder := Some (new C) \<rparr> in
               (case build_app (new C) False tokens_json of
                  Inl e \<Rightarrow> (Some e, st)
                | Inr (b, a) \<Rightarrow>
                    let st = st \<lparr> app_builder := Some b, built_app := Some a \<rparr>;
                        st = st \<lparr> stdout := stdout st @ print_output_volume_usage b \<rparr>
                    in (case get_volumes b False tokens_json of
                          Inl e \<Rightarrow> (Some e, st)
                        | Inr (b, vols) \<Rightarrow>
                            (None,
                             st \<lparr> app_builder := Some b,
                                  ui := Some \<lparr> max_containers = 1,
                                               fn_gpu = gpu b,
                                               fn_volumes = vols,
                                               max_inputs = 10,
                                               port = 8000,
                                               startup_timeout = 60,
                                               launch = ''comfy launch -- --listen 0.0.0.0 --port 8000'' \<rparr> \<rparr>)))))"

section \<open>Effects of the download stage\<close>

text \<open>
  The function that the model-download layer runs calls the model-hub client, prints and
  runs shell commands. A shell command is kept by its parts; \<open>command_line\<close> is the string
  that the source formats and hands to \<^verbatim>\<open>subprocess.run(..., shell=True)\<close>.
\<close>

datatype shell_cmd =
    Ln_s string string
  | Wget_q_O string string
  | Mkdir_p string

fun command_line :: "shell_cmd \<Rightarrow> string" where
  "command_line (Ln_s path link) = ''ln -s '' @ path @ '' '' @ link"
| "command_line (Wget_q_O path url) = ''wget -q -O '' @ path @ '' '' @ url"
| "command_line (Mkdir_p dir) = ''mkdir -p '' @ dir"

text \<open>
  The two calls into \<^verbatim>\<open>huggingface_hub\<close>:
  \<^verbatim>\<open>hf_hub_download(repo_id, filename, cache_dir, token)\<close> and
  \<^verbatim>\<open>snapshot_download(repo_id, allow_patterns, ignore_patterns, cache_dir)\<close>.
\<close>

datatype request =
    Hf_hub_download string string string "string option"
  | Snapshot_download string "string list" "string list" string

text \<open>
  What a run has done so far, with what came back: a printed line, a hub call with the
  path it returned (\<open>None\<close> when it raised), a shell command with its exit status.
\<close>

datatype event =
    Printed string
  | Fetched request "string option"
  | Ran shell_cmd int

text \<open>
  The world outside the program answers a hub call and gives the exit status of a program
  started with its arguments; the answer may depend on everything that happened before.
\<close>

record world =
  hub_result :: "event list \<Rightarrow> request \<Rightarrow> string option"
  program_status :: "event list \<Rightarrow> string list \<Rightarrow> int"

text \<open>
  \<^verbatim>\<open>subprocess.run(line, shell=True)\<close> hands the line to \<^verbatim>\<open>sh -c\<close>. Of the shell's syntax the
  model has what the command lines of this program are made of: words separated by
  blanks, and the control operator \<^verbatim>\<open>&\<close> (quoting, \<^verbatim>\<open>;\<close>, \<^verbatim>\<open>|\<close>, \<^verbatim>\<open>&&\<close>, expansions and
  redirections are not modelled). The source never quotes what it pastes into a line, so
  an \<^verbatim>\<open>&\<close> inside a URL is the operator. A line is a sequence of commands separated by
  \<^verbatim>\<open>&\<close>: each command followed by \<^verbatim>\<open>&\<close> is started in the background and not waited for,
  the command after the last \<^verbatim>\<open>&\<close> runs in the foreground, and its exit status is the status
  of the line. A command of variable assignments only (\<^verbatim>\<open>name=value\<close>), or of no word at
  all, exits with status 0; otherwise the words after the leading assignments are a
  program and its arguments.
\<close>

fun split_on :: "char \<Rightarrow> string \<Rightarrow> string list" where
  "split_on c [] = [[]]"
| "split_on c (x # xs) =
     (if x = c then [] # split_on c xs
      else (case split_on c xs of
              [] \<Rightarrow> [[x]]
            | w # ws \<Rightarrow> (x # w) # ws))"

definition shell_words :: "string \<Rightarrow> string list" where
  "shell_words s = filter (\<lambda>w. w \<noteq> []) (split_on CHR '' '' s)"

definition name_char :: "char \<Rightarrow> bool" where
  "name_char c =
     (let n = (of_char c :: nat)
      in (48 \<le> n \<and> n \<le> 57) \<or> (65 \<le> n \<and> n \<le> 90) \<or> (97 \<le> n \<and> n \<le> 122) \<or> n = 95)"

definition is_assignment :: "string \<Rightarrow> bool" where
  "is_assignment w =
     (case takeWhile (\<lambda>c. c \<noteq> CHR ''='') w of
        [] \<Rightarrow> False
      | c # cs \<Rightarrow>
          length (c # cs) < length w \<and> list_all name_char (c # cs) \<and>
          \<not> (48 \<le> (of_char c :: nat) \<and> (of_char c :: nat) \<le> 57))"

definition simple_command_status :: "world \<Rightarrow> event list \<Rightarrow> string list \<Rightarrow> int" where
  "simple_command_status W tr ws =
     (case dropWhile is_assignment ws of
        [] \<Rightarrow> 0
      | prog # args \<Rightarrow> program_status W tr (prog # args))"

definition foreground_command :: "string \<Rightarrow> string list" where
  "foreground_command line =
     (case rev (split_on CHR ''&'' line) of
        [] \<Rightarrow> []
      | part # parts \<Rightarrow> shell_words part)"

definition background_commands :: "string \<Rightarrow> string list list" where
  "background_commands line =
     (case rev (split_on CHR ''&'' line) of
        [] \<Rightarrow> []
      | part # parts \<Rightarrow> map shell_words (rev parts))"

definition sh_status :: "world \<Rightarrow> event list \<Rightarrow> string \<Rightarrow> int" where
  "sh_status W tr line = simple_command_status W tr (foreground_command line)"

text \<open>The exit status that \<^verbatim>\<open>subprocess.run\<close> gets for a command of the program.\<close>

definition exit_status :: "world \<Rightarrow> event list \<Rightarrow> shell_cmd \<Rightarrow> int" where
  "exit_status W tr cmd = sh_status W tr (command_line cmd)"

type_synonym exec = "event list \<Rightarrow> (error + unit) \<times> event list"

definition print :: "string \<Rightarrow> exec" where
  "print s tr = (Inr (), tr @ [Printed s])"

text \<open>
  \<^verbatim>\<open>subprocess.run(cmd, shell=True, check=check)\<close>: the status it gets, and checks, is the
  status of the shell on the command line.
\<close>

definition subprocess_run :: "world \<Rightarrow> shell_cmd \<Rightarrow> bool \<Rightarrow> exec" where
  "subprocess_run W cmd check tr =
     (let rc = exit_status W tr cmd;
          tr = tr @ [Ran cmd rc]
      in if check \<and> rc \<noteq> 0 then (Inl (CalledProcessError rc), tr) else (Inr (), tr))"

definition hub_call :: "world \<Rightarrow> request \<Rightarrow> event list \<Rightarrow> (error + string) \<times> event list" where
  "hub_call W req tr =
     (case hub_result W tr req of
        None \<Rightarrow> (Inl HubError, tr @ [Fetched req None])
      | Some path \<Rightarrow> (Inr path, tr @ [Fetched req (Some path)]))"

text \<open>Statements one after the other: the first exception ends the sequence.\<close>

fun run_all :: "exec list \<Rightarrow> exec" where
  "run_all [] tr = (Inr (), tr)"
| "run_all (m # ms) tr =
     (case m tr of
        (Inl e, tr) \<Rightarrow> (Inl e, tr)
      | (Inr _, tr) \<Rightarrow> run_all ms tr)"

section \<open>The download helpers: \<^verbatim>\<open>comfy_utils.py\<close>\<close>

definition download_hf_file ::
  "world \<Rightarrow> string \<Rightarrow> string \<Rightarrow> string \<Rightarrow> string \<Rightarrow> string option \<Rightarrow> string option \<Rightarrow> exec" where
  "download_hf_file W repo filename cache_dir' save_dir save_filename token tr =
     (case print (''Downloading '' @ repo @ ''/'' @ filename) tr of
        (_, tr) \<Rightarrow>
          (case hub_call W (Hf_hub_download repo filename cache_dir' token) tr of
             (Inl e, tr) \<Rightarrow> (Inl e, tr)
           | (Inr path, tr) \<Rightarrow>
               let save_filename = (case save_filename of None \<Rightarrow> filename | Some s \<Rightarrow> s)
               in subprocess_run W (Ln_s path (save_dir @ ''/'' @ save_filename)) True tr))"

definition download_hf_snapshot ::
  "world \<Rightarrow> string \<Rightarrow> string \<Rightarrow> string \<Rightarrow> string \<Rightarrow> string list \<Rightarrow> string list \<Rightarrow> exec" where
  "download_hf_snapshot W repo dir_name cache_dir' save_dir allow_patterns ignore_patterns tr =
     (case print (''Downloading '' @ repo) tr of
        (_, tr) \<Rightarrow>
          (case hub_call W (Snapshot_download repo allow_patterns ignore_patterns cache_dir') tr of
             (Inl e, tr) \<Rightarrow> (Inl e, tr)
           | (Inr path, tr) \<Rightarrow>
               subprocess_run W (Ln_s path (save_dir @ ''/'' @ dir_name)) True tr))"

text \<open>
  \<^verbatim>\<open>download_wget_file\<close> formats \<^verbatim>\<open>url\<close> into the \<^verbatim>\<open>wget\<close> command line as it is; what the shell
  makes of that line is \<open>exit_status\<close>.
\<close>

definition download_wget_file :: "world \<Rightarrow> string \<Rightarrow> string \<Rightarrow> string \<Rightarrow> string \<Rightarrow> exec" where
  "download_wget_file W url filename cache_dir' save_dir tr =
     (case print (''Downloading '' @ url) tr of
        (_, tr) \<Rightarrow>
          let path = cache_dir' @ ''/'' @ filename in
          (case subprocess_run W (Wget_q_O path url) True tr of
             (Inl e, tr) \<Rightarrow> (Inl e, tr)
           | (Inr _, tr) \<Rightarrow>
               subprocess_run W (Ln_s path (save_dir @ ''/'' @ filename)) True tr))"

section \<open>The download stage of each class\<close>

text \<open>\<^verbatim>\<open>tokens[key]\<close>, then the statement that uses the value.\<close>

definition with_token :: "tokens \<Rightarrow> string \<Rightarrow> (string \<Rightarrow> exec) \<Rightarrow> exec" where
  "with_token toks key f tr =
     (case map_of toks key of
        None \<Rightarrow> (Inl (KeyError key), tr)
      | Some v \<Rightarrow> f v tr)"

definition ComfyAppBuilder_hf_download :: "world \<Rightarrow> builder \<Rightarrow> tokens \<Rightarrow> exec" where
  "ComfyAppBuilder_hf_download W self toks tr = (Inr (), tr)"

definition ACEStepComfyAppBuilder_ace_step_download :: "world \<Rightarrow> builder \<Rightarrow> exec" where
  "ACEStepComfyAppBuilder_ace_step_download W self =
     (let save_dir = comfy_models_dir self @ ''/TTS'' in
      run_all
        [subprocess_run W (Mkdir_p save_dir) True,
         download_hf_snapshot W ''ACE-Step/ACE-Step-v1-3.5B'' ''ACE-Step-v1-3.5B''
           (cache_dir self) save_dir [''*.json'', ''*.safetensors''] []])"

definition ACEStepComfyAppBuilder_qwen_download :: "world \<Rightarrow> builder \<Rightarrow> exec" where
  "ACEStepComfyAppBuilder_qwen_download W self =
     (let save_dir = comfy_models_dir self @ ''/Qwen/Qwen/Qwen3-14B'';
          repo = ''Qwen/Qwen3-14B''
      in run_all
           ([subprocess_run W (Mkdir_p save_dir) True] @
            map (\<lambda>i. download_hf_file W repo
                        (''model-000'' @ zfill (str (i + 1)) 2 @ ''-of-00008.safetensors'')
                        (cache_dir self) save_dir None None)
                [0 ..< 8] @
            [download_hf_file W repo ''config.json'' (cache_dir self) save_dir None None,
             download_hf_file W repo ''tokenizer.json'' (cache_dir self) save_dir None None,
             download_hf_file W repo ''vocab.json'' (cache_dir self) save_dir None None,
             download_hf_file W repo ''merges.txt'' (cache_dir self) save_dir None None,
             download_hf_file W repo ''generation_config.json'' (cache_dir self) save_dir None None,
             download_hf_file W repo ''tokenizer_config.json'' (cache_dir self) save_dir None None,
             download_hf_file W repo ''model.safetensors.index.json'' (cache_dir self) save_dir
               None None]))"

definition ACEStepComfyAppBuilder_hf_download :: "world \<Rightarrow> builder \<Rightarrow> tokens \<Rightarrow> exec" where
  "ACEStepComfyAppBuilder_hf_download W self toks =
     run_all
       [ComfyAppBuilder_hf_download W self toks,
        ACEStepComfyAppBuilder_ace_step_download W self,
        ACEStepComfyAppBuilder_qwen_download W self]"

definition FluxComfyAppBuilder_hf_download :: "world \<Rightarrow> builder \<Rightarrow> tokens \<Rightarrow> exec" where
  "FluxComfyAppBuilder_hf_download W self toks =
     (let repo = ''comfyanonymous/flux_text_encoders'';
          save_dir = comfy_models_dir self @ ''/text_encoders''
      in run_all
           [ComfyAppBuilder_hf_download W self toks,
            download_hf_file W repo ''t5xxl_fp8_e4m3fn_scaled.safetensors'' (cache_dir self)
              save_dir None None,
            download_hf_file W repo ''clip_l.safetensors'' (cache_dir self) save_dir None None,
            download_hf_file W ''Comfy-Org/Lumina_Image_2.0_Repackaged''
              ''split_files/vae/ae.safetensors'' (cache_dir self)
              (comfy_models_dir self @ ''/vae'') (Some ''ae.safetensors'') None,
            with_token toks ''HF_TOKEN'' (\<lambda>t.
              download_hf_file W ''black-forest-labs/FLUX.1-schnell'' ''flux1-schnell.safetensors''
                (cache_dir self) (comfy_models_dir self @ ''/unet'') None (Some t))])"

definition KritaComfyAppBuilder_illustrious_download :: "world \<Rightarrow> builder \<Rightarrow> exec" where
  "KritaComfyAppBuilder_illustrious_download W self =
     download_hf_file W ''OnomaAIResearch/Illustrious-XL-v2.0'' ''Illustrious-XL-v2.0.safetensors''
       (cache_dir self) (comfy_models_dir self @ ''/checkpoints'') None None"

definition KritaComfyAppBuilder_clip_vision_download :: "world \<Rightarrow> builder \<Rightarrow> exec" where
  "KritaComfyAppBuilder_clip_vision_download W self =
     download_hf_file W ''h94/IP-Adapter'' ''models/image_encoder/model.safetensors''
       (cache_dir self) (comfy_models_dir self @ ''/clip_vision'')
       (Some ''clip-vision_vit-h.safetensors'') None"

definition KritaComfyAppBuilder_upscale_download :: "world \<Rightarrow> builder \<Rightarrow> exec" where
  "KritaComfyAppBuilder_upscale_download W self =
     (let upscale_models_dir = comfy_models_dir self @ ''/upscale_models'';
          url = ''https://objectstorage.us-phoenix-1.oraclecloud.com/n/ax6ygfvpvzka/b/open-modeldb-files/o/4x-NMKD-YandereNeo.pth''
      in run_all
           [download_wget_file W url ''4x-NMKD-YandereNeo.pth'' (cache_dir self) upscale_models_dir,
            download_hf_file W ''Acly/Omni-SR'' ''OmniSR_X2_DIV2K.safetensors'' (cache_dir self)
              upscale_models_dir None None,
            download_hf_file W ''Acly/Omni-SR'' ''OmniSR_X3_DIV2K.safetensors'' (cache_dir self)
              upscale_models_dir None None,
            download_hf_file W ''Acly/Omni-SR'' ''OmniSR_X4_DIV2K.safetensors'' (cache_dir self)
              upscale_models_dir None None,
            download_hf_file W ''Acly/hat'' ''HAT_SRx4_ImageNet-pretrain.pth'' (cache_dir self)
              upscale_models_dir None None,
            download_hf_file W ''Acly/hat'' ''Real_HAT_GAN_sharper.pth'' (cache_dir self)
              upscale_models_dir None None])"

definition KritaComfyAppBuilder_inpaint_download :: "world \<Rightarrow> builder \<Rightarrow> tokens \<Rightarrow> exec" where
  "KritaComfyAppBuilder_inpaint_download W self toks =
     (let save_dir = comfy_models_dir self @ ''/inpaint'' in
      run_all
        [subprocess_run W (Mkdir_p save_dir) True,
         with_token toks ''CIVITAI_TOKEN'' (\<lambda>t.
           download_wget_file W
             (''https://civitai.com/api/download/models/480117?type=Model&format=SafeTensor&size=pruned&fp=fp16&token='' @ t)
             ''animaginexl_v31Inpainting.safetensors'' (cache_dir self) save_dir)])"

definition KritaComfyAppBuilder_controlnet_download :: "world \<Rightarrow> builder \<Rightarrow> exec" where
  "KritaComfyAppBuilder_controlnet_download W self =
     (let controlnet_dir = comfy_models_dir self @ ''/controlnet'' in
      run_all
        [download_hf_file W ''Eugeoter/noob-sdxl-controlnet-scribble_pidinet''
           ''diffusion_pytorch_model.fp16.safetensors'' (cache_dir self) controlnet_dir
           (Some ''noob-sdxl-controlnet-scribble_pidinet.fp16.safetensors'') None,
         download_hf_file W ''Eugeoter/noob-sdxl-controlnet-lineart_anime''
           ''diffusion_pytorch_model.fp16.safetensors'' (cache_dir self) controlnet_dir
           (Some ''noob-sdxl-controlnet-lineart_anime.fp16.safetensors'') None,
         download_hf_file W ''Eugeoter/noob-sdxl-controlnet-softedge_hed''
           ''diffusion_pytorch_model.fp16.safetensors'' (cache_dir self) controlnet_dir
           (Some ''noob-sdxl-controlnet-softedge_hed.fp16.safetensors'') None,
         download_hf_file W ''Eugeoter/noob-sdxl-controlnet-canny''
           ''noob_sdxl_controlnet_canny.fp16.safetensors'' (cache_dir self) controlnet_dir
           None None,
         download_hf_file W ''Eugeoter/noob-sdxl-controlnet-depth_midas-v1-1''
           ''diffusion_pytorch_model.fp16.safetensors'' (cache_dir self) controlnet_dir
           (Some ''noob-sdxl-controlnet-depth_midas-v1-1.fp16.safetensors'') None,
         download_hf_file W ''Eugeoter/noob-sdxl-controlnet-normal''
           ''diffusion_pytorch_model.fp16.safetensors'' (cache_dir self) controlnet_dir
           (Some ''noob-sdxl-controlnet-normal.fp16.safetensors'') None,
         download_hf_file W ''windsingai/Illustrious-XL-openpose-test''
           ''openpose_s6000.safetensors'' (cache_dir self) controlnet_dir None None,
         download_hf_file W ''Eugeoter/noob-sdxl-controlnet-tile''
           ''diffusion_pytorch_model.fp16.safetensors'' (cache_dir self) controlnet_dir
           (Some ''noob-sdxl-controlnet-tile.fp16.safetensors'') None])"

definition KritaComfyAppBuilder_ipadapter_download :: "world \<Rightarrow> builder \<Rightarrow> exec" where
  "KritaComfyAppBuilder_ipadapter_download W self =
     (let save_dir = comfy_models_dir self @ ''/ipadapter'' in
      run_all
        [subprocess_run W (Mkdir_p save_dir) True,
         download_hf_file W ''h94/IP-Adapter'' ''sdxl_models/image_encoder/model.safetensors''
           (cache_dir self) (comfy_models_dir self @ ''/clip_vision'')
           (Some ''clip-vision_vit-g.safetensors'') None,
         download_hf_file W ''kataragi/Noob_ipadapter'' ''ip_adapter_Noobtest_800000.bin''
           (cache_dir self) save_dir None None])"

definition KritaComfyAppBuilder_hf_download :: "world \<Rightarrow> builder \<Rightarrow> tokens \<Rightarrow> exec" where
  "KritaComfyAppBuilder_hf_download W self toks =
     run_all
       [ComfyAppBuilder_hf_download W self toks,
        KritaComfyAppBuilder_illustrious_download W self,
        KritaComfyAppBuilder_clip_vision_download W self,
        KritaComfyAppBuilder_upscale_download W self,
        KritaComfyAppBuilder_inpaint_download W self toks,
        KritaComfyAppBuilder_controlnet_download W self,
        KritaComfyAppBuilder_ipadapter_download W self]"

definition QwenComfyAppBuilder_hf_download :: "world \<Rightarrow> builder \<Rightarrow> tokens \<Rightarrow> exec" where
  "QwenComfyAppBuilder_hf_download W self toks =
     (let save_dir = comfy_models_dir self @ ''/Qwen/Qwen-VL/Qwen2.5-VL-32B-Instruct'';
          repo = ''Qwen/Qwen2.5-VL-32B-Instruct''
      in run_all
           ([ComfyAppBuilder_hf_download W self toks,
             subprocess_run W (Mkdir_p save_dir) True] @
            map (\<lambda>i. download_hf_file W repo
                        (''model-000'' @ zfill (str (i + 1)) 2 @ ''-of-00018.safetensors'')
                        (cache_dir self) save_dir None None)
                [0 ..< 18] @
            [download_hf_file W repo ''config.json'' (cache_dir self) save_dir None None,
             download_hf_file W repo ''tokenizer.json'' (cache_dir self) save_dir None None,
             download_hf_file W repo ''vocab.json'' (cache_dir self) save_dir None None,
             download_hf_file W repo ''merges.txt'' (cache_dir self) save_dir None None,
             download_hf_file W repo ''chat_template.json'' (cache_dir self) save_dir None None,
             download_hf_file W repo ''preprocessor_config.json'' (cache_dir self) save_dir
               None None,
             download_hf_file W repo ''generation_config.json'' (cache_dir self) save_dir None None,
             download_hf_file W repo ''tokenizer_config.json'' (cache_dir self) save_dir None None,
             download_hf_file W repo ''model.safetensors.index.json'' (cache_dir self) save_dir
               None None]))"

definition WanComfyAppBuilder_hf_download :: "world \<Rightarrow> builder \<Rightarrow> tokens \<Rightarrow> exec" where
  "WanComfyAppBuilder_hf_download W self toks =
     (let repo = ''Comfy-Org/Wan_2.1_ComfyUI_repackaged'' in
      run_all
        [ComfyAppBuilder_hf_download W self toks,
         download_hf_file W repo
           ''split_files/text_encoders/umt5_xxl_fp8_e4m3fn_scaled.safetensors'' (cache_dir self)
           (comfy_models_dir self @ ''/text_encoders'')
           (Some ''umt5_xxl_fp8_e4m3fn_scaled.safetensors'') None,
         download_hf_file W repo ''split_files/vae/wan_2.1_vae.safetensors'' (cache_dir self)
           (comfy_models_dir self @ ''/vae'') (Some ''wan_2.1_vae.safetensors'') None,
         download_hf_file W repo ''split_files/clip_vision/clip_vision_h.safetensors''
           (cache_dir self) (comfy_models_dir self @ ''/clip_vision'')
           (Some ''clip_vision_h.safetensors'') None,
         with_token toks ''CIVITAI_TOKEN'' (\<lambda>t.
           download_wget_file W
             (''https://civitai.com/api/download/models/1873761?type=Model&format=GGUF&size=full&fp=fp32&token='' @ t)
             ''liveWallpaperFast_i2v14B720P.gguf'' (cache_dir self)
             (comfy_models_dir self @ ''/diffusion_models''))])"

text \<open>\<^verbatim>\<open>self._hf_download(tokens=tokens)\<close>, resolved by the class of \<^verbatim>\<open>self\<close>.\<close>

definition hf_download :: "world \<Rightarrow> builder \<Rightarrow> tokens \<Rightarrow> exec" where
  "hf_download W self toks =
     (case cls self of
        ComfyAppBuilder \<Rightarrow> ComfyAppBuilder_hf_download W self toks
      | ACEStepComfyAppBuilder \<Rightarrow> ACEStepComfyAppBuilder_hf_download W self toks
      | FluxComfyAppBuilder \<Rightarrow> FluxComfyAppBuilder_hf_download W self toks
      | KritaComfyAppBuilder \<Rightarrow> KritaComfyAppBuilder_hf_download W self toks
      | QwenComfyAppBuilder \<Rightarrow> QwenComfyAppBuilder_hf_download W self toks
      | WanComfyAppBuilder \<Rightarrow> WanComfyAppBuilder_hf_download W self toks)"

section \<open>Reading a run\<close>

text \<open>
  The link commands a run issued, as pairs of the path linked to and the link's own
  path; those that exited with status 0; the paths of the files a run has put into the
  cache (a hub call that returned, a \<^verbatim>\<open>wget\<close> command line that exited with status 0; for a
  line that puts \<^verbatim>\<open>wget\<close> in the background that status says nothing about \<^verbatim>\<open>wget\<close> itself,
  so these are the paths the run takes to be in the cache); and the directory part of a
  path.
\<close>

fun link_of :: "event \<Rightarrow> (string \<times> string) list" where
  "link_of (Ran (Ln_s path link) rc) = [(path, link)]"
| "link_of _ = []"

definition link_cmds :: "event list \<Rightarrow> (string \<times> string) list" where
  "link_cmds tr = concat (map link_of tr)"

fun created_link_of :: "event \<Rightarrow> (string \<times> string) list" where
  "created_link_of (Ran (Ln_s path link) rc) = (if rc = 0 then [(path, link)] else [])"
| "created_link_of _ = []"

definition created_links :: "event list \<Rightarrow> (string \<times> string) list" where
  "created_links tr = concat (map created_link_of tr)"

fun cached_of :: "event \<Rightarrow> string list" where
  "cached_of (Fetched req (Some path)) = [path]"
| "cached_of (Ran (Wget_q_O path url) rc) = (if rc = 0 then [path] else [])"
| "cached_of _ = []"

definition cached_paths :: "event list \<Rightarrow> string list" where
  "cached_paths tr = concat (map cached_of tr)"

text \<open>
  The file of the cache that a fetch fills: a file of a hub repository, the snapshot of a
  repository, or the path that \<^verbatim>\<open>wget\<close> writes.
\<close>

datatype cache_key = Hub_file string string | Hub_snapshot string | Wget_file string

fun cache_key_of :: "event \<Rightarrow> cache_key list" where
  "cache_key_of (Fetched (Hf_hub_download repo filename c t) r) = [Hub_file repo filename]"
| "cache_key_of (Fetched (Snapshot_download repo a i c) r) = [Hub_snapshot repo]"
| "cache_key_of (Ran (Wget_q_O path url) rc) = [Wget_file path]"
| "cache_key_of _ = []"

definition cache_keys :: "event list \<Rightarrow> cache_key list" where
  "cache_keys tr = concat (map cache_key_of tr)"

text \<open>
  A failure that the program sees: a hub call that raised, a command line whose status,
  as \<^verbatim>\<open>subprocess.run\<close> gets it, is not 0.
\<close>

fun failed :: "event \<Rightarrow> bool" where
  "failed (Fetched req None) = True"
| "failed (Ran cmd rc) = (rc \<noteq> 0)"
| "failed _ = False"

definition dirname :: "string \<Rightarrow> string" where
  "dirname p = rev (tl (dropWhile (\<lambda>c. c \<noteq> CHR ''/'') (rev p)))"



text \<open>
  Two properties of a piece of the download stage, used to reason about sequences of
  statements. A \<open>disciplined\<close> piece only adds events to the run; what it adds has a link
  command, on the returned path, for each file it put into the cache; only the last event
  it adds can be a failure, and none is when the piece returns normally. A piece \<open>yields\<close>
  the link paths \<open>ls\<close> and the cache files \<open>ks\<close> when every normal run of it issues
  links at exactly those paths and fetches exactly those files, in that order.
\<close>

definition disciplined :: "exec \<Rightarrow> bool" where
  "disciplined m =
     (\<forall>tr. \<exists>new. snd (m tr) = tr @ new \<and>
                 map fst (link_cmds new) = cached_paths new \<and>
                 \<not> list_ex failed (butlast new) \<and>
                 (fst (m tr) = Inr () \<longrightarrow> \<not> list_ex failed new))"

definition yields :: "exec \<Rightarrow> string list \<Rightarrow> cache_key list \<Rightarrow> bool" where
  "yields m ls ks =
     (\<forall>tr tr1. m tr = (Inr (), tr1) \<longrightarrow>
        (\<exists>new. tr1 = tr @ new \<and> map snd (link_cmds new) = ls \<and> cache_keys new = ks))"



section \<open>Two worlds and a token file to run the model in\<close>

text \<open>
  A world where every fetch and every program succeeds, the hub client storing a file
  under the cache directory by repository and name; and a world that differs in that the
  program \<^verbatim>\<open>wget\<close> exits with status 1 whatever its arguments.
\<close>

fun hub_path :: "request \<Rightarrow> string" where
  "hub_path (Hf_hub_download repo filename c t) = c @ ''/'' @ repo @ ''/'' @ filename"
| "hub_path (Snapshot_download repo a i c) = c @ ''/'' @ repo"

definition good_world :: world where
  "good_world =
     \<lparr> hub_result = (\<lambda>tr req. Some (hub_path req)), program_status = (\<lambda>tr argv. 0) \<rparr>"

fun wget_fails :: "string list \<Rightarrow> int" where
  "wget_fails [] = 0"
| "wget_fails (prog # args) = (if prog = ''wget'' then 1 else 0)"

definition wget_fails_world :: world where
  "wget_fails_world =
     \<lparr> hub_result = (\<lambda>tr req. Some (hub_path req)), program_status = (\<lambda>tr argv. wget_fails argv) \<rparr>"

definition some_tokens :: tokens where
  "some_tokens = [(''HF_TOKEN'', ''hf_abc''), (''CIVITAI_TOKEN'', ''cv_xyz'')]"




lemmas init_defs =
  ComfyAppBuilder_init_def ACEStepComfyAppBuilder_init_def FluxComfyAppBuilder_init_def
  KritaComfyAppBuilder_init_def QwenComfyAppBuilder_init_def WanComfyAppBuilder_init_def

lemma APP_REGISTRY_cases:
  "APP_REGISTRY k = Some c \<Longrightarrow>
     (k = ''ace-step'' \<and> c = ACEStepComfyAppBuilder) \<or>
     (k = ''flux'' \<and> c = FluxComfyAppBuilder) \<or>
     (k = ''krita'' \<and> c = KritaComfyAppBuilder) \<or>
     (k = ''qwen'' \<and> c = QwenComfyAppBuilder) \<or>
     (k = ''wan'' \<and> c = WanComfyAppBuilder)"
  by (simp add: APP_REGISTRY_def APP_REGISTRY_items_def split: if_splits)


section \<open>Workload identities\<close>

text \<open>
  C1, as stated, fails: the GPU tier is not unique across the registry. The builders
  selected by the keys \<^verbatim>\<open>flux\<close> and \<^verbatim>\<open>krita\<close> both declare \<^verbatim>\<open>T4\<close>.
\<close>

theorem C1_gpu_shared:
  "APP_REGISTRY ''flux'' = Some FluxComfyAppBuilder \<and>
   APP_REGISTRY ''krita'' = Some KritaComfyAppBuilder \<and>
   ''flux'' \<noteq> ''krita'' \<and>
   gpu (new FluxComfyAppBuilder) = gpu (new KritaComfyAppBuilder)"
  by (simp add: APP_REGISTRY_def APP_REGISTRY_items_def init_defs)

text \<open>
  C1, amended: for two different keys of the registry, the builders they select differ in
  their application name and in their output-volume name; their GPU tiers are equal
  exactly for the pairs \<^verbatim>\<open>flux\<close>/\<^verbatim>\<open>krita\<close> (both \<^verbatim>\<open>T4\<close>) and \<^verbatim>\<open>ace-step\<close>/\<^verbatim>\<open>wan\<close>
  (both \<^verbatim>\<open>L40S\<close>).
\<close>

theorem C1_names_unique:
  assumes "APP_REGISTRY k1 = Some c1" and "APP_REGISTRY k2 = Some c2" and "k1 \<noteq> k2"
  shows "app_name (new c1) \<noteq> app_name (new c2) \<and>
         output_vol_name (new c1) \<noteq> output_vol_name (new c2) \<and>
         (gpu (new c1) = gpu (new c2)) =
           ((k1, k2) \<in> {(''flux'', ''krita''), (''krita'', ''flux''),
                         (''ace-step'', ''wan''), (''wan'', ''ace-step'')})"
  using APP_REGISTRY_cases [OF assms(1)] APP_REGISTRY_cases [OF assms(2)] assms(3)
  by (elim disjE conjE) (simp_all add: init_defs)

theorem C1_names_unique_witness:
  "APP_REGISTRY ''qwen'' = Some QwenComfyAppBuilder \<and>
   APP_REGISTRY ''wan'' = Some WanComfyAppBuilder \<and>
   ''qwen'' \<noteq> ''wan'' \<and>
   app_name (new QwenComfyAppBuilder) \<noteq> app_name (new WanComfyAppBuilder) \<and>
   output_vol_name (new QwenComfyAppBuilder) \<noteq> output_vol_name (new WanComfyAppBuilder) \<and>
   gpu (new QwenComfyAppBuilder) \<noteq> gpu (new WanComfyAppBuilder)"
proof -
  have a: "APP_REGISTRY ''qwen'' = Some QwenComfyAppBuilder"
    and b: "APP_REGISTRY ''wan'' = Some WanComfyAppBuilder"
    by (simp_all add: APP_REGISTRY_def APP_REGISTRY_items_def)
  have c: "''qwen'' \<noteq> ''wan''" by simp
  show ?thesis using a b C1_names_unique [OF a b c] by simp
qed

section \<open>Normalising the selector\<close>

lemma isspace_lower_char: "isspace c \<Longrightarrow> lower_char c = c"
  by (auto simp: isspace_def lower_char_def Let_def)

lemma lower_space: "\<forall>c\<in>set ws. isspace c \<Longrightarrow> lower ws = ws"
  by (induction ws) (simp_all add: lower_def isspace_lower_char)

lemma dropWhile_all: "\<forall>c\<in>set ws. P c \<Longrightarrow> dropWhile P (ws @ xs) = dropWhile P xs"
  by (induction ws) simp_all

lemma strip_padded:
  assumes "\<forall>c\<in>set pre. isspace c" and "\<forall>c\<in>set post. isspace c"
    and "k \<noteq> []" and "\<not> isspace (hd k)" and "\<not> isspace (last k)"
  shows "strip (pre @ k @ post) = k"
proof -
  from assms(3,4) have 1: "dropWhile isspace (k @ post) = k @ post"
    by (cases k) simp_all
  from assms(3,5) have 2: "dropWhile isspace (rev k) = rev k"
    by (cases "rev k") (simp_all add: last_rev [symmetric] hd_rev)
  have "dropWhile isspace (rev post @ rev k) = dropWhile isspace (rev k)"
    using assms(2) by (intro dropWhile_all) simp
  with 1 2 show ?thesis
    using assms(1) by (simp add: strip_def dropWhile_all)
qed

lemma registry_key_shape:
  "APP_REGISTRY k = Some C \<Longrightarrow> k \<noteq> [] \<and> \<not> isspace (hd k) \<and> \<not> isspace (last k)"
  by (drule APP_REGISTRY_cases) (auto simp: isspace_def)

lemma strip_lower_padded:
  assumes "\<forall>c\<in>set pre. isspace c" and "\<forall>c\<in>set post. isspace c"
    and "APP_REGISTRY (lower mid) = Some C"
  shows "strip (lower (pre @ mid @ post)) = lower mid"
proof -
  have "lower (pre @ mid @ post) = pre @ lower mid @ post"
    using lower_space [OF assms(1)] lower_space [OF assms(2)] by (simp add: lower_def)
  then show ?thesis
    using strip_padded [OF assms(1,2)] registry_key_shape [OF assms(3)] by simp
qed

section \<open>The image stages\<close>

lemmas stage_defs =
  build_image_def install_comfy_nodes_def post_install_dep_def copy_files_def
  ComfyAppBuilder_build_image_def ComfyAppBuilder_install_comfy_nodes_def
  ComfyAppBuilder_post_install_dep_def ComfyAppBuilder_copy_files_def
  ACEStepComfyAppBuilder_build_image_def ACEStepComfyAppBuilder_install_comfy_nodes_def
  ACEStepComfyAppBuilder_post_install_dep_def
  KritaComfyAppBuilder_build_image_def KritaComfyAppBuilder_install_comfy_nodes_def
  QwenComfyAppBuilder_install_comfy_nodes_def WanComfyAppBuilder_install_comfy_nodes_def

lemmas image_defs =
  debian_slim_def apt_install_def pip_install_def run_commands_def
  add_local_python_source_def add_local_file_def env_def run_function_def

lemma download_models_Some:
  "download_models self img flag (Some toks) =
     Inr (img @ [Env [(''HF_HUB_ENABLE_HF_TRANSFER'', ''1'')],
                 Run_function (cls self) [(cache_dir self, Volume_from_name ''hf-hub-cache'' True)]
                   flag toks],
          Volume_from_name ''hf-hub-cache'' True)"
  by (simp add: download_models_def image_defs Let_def)

lemma create_output_vol_eq:
  "create_output_vol self img =
     (img @ [Run_commands [''rm -rf '' @ comfy_output_dir self]],
      Volume_from_name (output_vol_name self) True)"
  by (simp add: create_output_vol_def image_defs Let_def)

lemma install_comfy_nodes_appends:
  "install_comfy_nodes self img = img @ install_comfy_nodes self []"
  by (simp add: stage_defs image_defs Let_def split: builder_class.split)

lemma post_install_dep_appends:
  "post_install_dep self img = img @ post_install_dep self []"
  by (simp add: stage_defs image_defs Let_def split: builder_class.split)

lemma copy_files_appends: "copy_files self img = img @ copy_files self []"
  by (simp add: stage_defs image_defs Let_def)

lemma pipeline_image:
  "fst (create_output_vol self
         (fst (projr (download_models self
                        (copy_files self
                           (post_install_dep self
                              (install_comfy_nodes self (build_image self))))
                        flag (Some toks))))) =
   build_image self @ install_comfy_nodes self [] @ post_install_dep self [] @
   copy_files self [] @
   [Env [(''HF_HUB_ENABLE_HF_TRANSFER'', ''1'')],
    Run_function (cls self) [(cache_dir self, Volume_from_name ''hf-hub-cache'' True)] flag toks] @
   [Run_commands [''rm -rf '' @ comfy_output_dir self]]"
  apply (simp add: download_models_Some create_output_vol_eq)
  apply (subst install_comfy_nodes_appends)
  apply (subst post_install_dep_appends)
  apply (subst copy_files_appends)
  apply simp
  done

lemma pipeline_result:
  "build_image_and_volumes self flag (Some toks) =
     Inr (self \<lparr> self_image :=
                   Some (fst (create_output_vol self
                           (fst (projr (download_models self
                                          (copy_files self
                                             (post_install_dep self
                                                (install_comfy_nodes self (build_image self))))
                                          flag (Some toks)))))),
                 self_volumes :=
                   AList.update (comfy_output_dir self) (Volume_from_name (output_vol_name self) True)
                     (AList.update (cache_dir self) (Volume_from_name ''hf-hub-cache'' True) []) \<rparr>)"
  by (simp add: build_image_and_volumes_def download_models_Some create_output_vol_eq Let_def)

text \<open>
  C3: for a builder of any of the six classes, an invocation of the pipeline that can read
  the token file returns the builder with the image that the stages produce in the order
  base image, plugin installation, post-install fixups, file copy-in, model download,
  output volume, each stage applied to the image of the stage before it. That image is the
  layers of the base-image stage followed by what each later stage adds, each once and in
  that order; the model-download stage adds the environment layer and the function layer,
  the output-volume stage the layer that empties the output directory. The volume mapping
  holds the cache volume that the model-download stage made and the output volume that
  the output-volume stage made.
\<close>

theorem C3_stage_order:
  "build_image_and_volumes self flag (Some toks) =
     Inr (self \<lparr> self_image :=
                   Some (fst (create_output_vol self
                           (fst (projr (download_models self
                                          (copy_files self
                                             (post_install_dep self
                                                (install_comfy_nodes self (build_image self))))
                                          flag (Some toks)))))),
                 self_volumes :=
                   AList.update (comfy_output_dir self) (Volume_from_name (output_vol_name self) True)
                     (AList.update (cache_dir self) (Volume_from_name ''hf-hub-cache'' True) []) \<rparr>) \<and>
   fst (create_output_vol self
         (fst (projr (download_models self
                        (copy_files self
                           (post_install_dep self
                              (install_comfy_nodes self (build_image self))))
                        flag (Some toks))))) =
     build_image self @ install_comfy_nodes self [] @ post_install_dep self [] @
     copy_files self [] @
     [Env [(''HF_HUB_ENABLE_HF_TRANSFER'', ''1'')],
      Run_function (cls self) [(cache_dir self, Volume_from_name ''hf-hub-cache'' True)] flag toks] @
     [Run_commands [''rm -rf '' @ comfy_output_dir self]] \<and>
   snd (projr (download_models self img flag (Some toks))) = Volume_from_name ''hf-hub-cache'' True \<and>
   snd (create_output_vol self img) = Volume_from_name (output_vol_name self) True"
  by (simp only: pipeline_result pipeline_image)
     (simp add: download_models_Some create_output_vol_eq)

theorem C3_stage_order_witness:
  "self_image (projr (build_image_and_volumes (new WanComfyAppBuilder) False (Some some_tokens))) =
     Some [Debian_slim ''3.11'', Apt_install ''git'', Apt_install ''wget'',
           Pip_install ''fastapi[standard]==0.115.4'', Pip_install ''comfy-cli'',
           Pip_install ''huggingface_hub[hf_transfer]'',
           Run_commands [''comfy --skip-prompt install --fast-deps --nvidia''],
           Run_commands [''comfy node install --fast-deps ComfyUI-GGUF'',
                         ''comfy node install --fast-deps ComfyUI-WanStartEndFramesNative''],
           Add_local_python_source ''comfy_utils'' True,
           Add_local_file ''tokens.json'' ''/root/tokens.json'' True,
           Env [(''HF_HUB_ENABLE_HF_TRANSFER'', ''1'')],
           Run_function WanComfyAppBuilder [(''/cache'', Volume_from_name ''hf-hub-cache'' True)]
             False some_tokens,
           Run_commands [''rm -rf /root/comfy/ComfyUI/output'']] \<and>
   self_volumes (projr (build_image_and_volumes (new WanComfyAppBuilder) False (Some some_tokens))) =
     [(''/cache'', Volume_from_name ''hf-hub-cache'' True),
      (''/root/comfy/ComfyUI/output'', Volume_from_name ''wan-comfyui-output'' True)]"
  using C3_stage_order [of "new WanComfyAppBuilder" False some_tokens "[]"]
  by (simp add: stage_defs image_defs init_defs Let_def)




lemma pipeline_fields:
  assumes "build_image_and_volumes self flag (Some toks) = Inr self'"
  shows "cls self' = cls self" "gpu self' = gpu self" "app_name self' = app_name self"
    "self_volumes self' \<noteq> []"
  using assms unfolding pipeline_result by (auto split: if_splits)

section \<open>The entry point\<close>

lemma main_selected:
  assumes "APP_REGISTRY (strip (lower s)) = Some C"
    and "build_image_and_volumes (new C) False (Some toks) = Inr b"
  shows "main (Some s) (Some toks) =
           (None,
            \<lparr> app_builder = Some b,
              built_app = Some \<lparr> name = app_name b, app_image = self_image b \<rparr>,
              stdout = print_output_volume_usage b,
              ui = Some \<lparr> max_containers = 1, fn_gpu = gpu b, fn_volumes = self_volumes b,
                          max_inputs = 10, port = 8000, startup_timeout = 60,
                          launch = ''comfy launch -- --listen 0.0.0.0 --port 8000'' \<rparr> \<rparr>)"
  using assms pipeline_fields(4) [OF assms(2)]
  by (simp add: main_def build_app_def get_volumes_def initial_state_def Let_def)

lemma main_unreadable_tokens:
  assumes "APP_REGISTRY (strip (lower s)) = Some C"
  shows "main (Some s) None =
           (Some (OSError ''tokens.json''), initial_state \<lparr> app_builder := Some (new C) \<rparr>)"
  using assms
  by (simp add: main_def build_app_def build_image_and_volumes_def download_models_def Let_def)

text \<open>
  C2: with \<^verbatim>\<open>APP\<close> unset the module ends with the \<^verbatim>\<open>ValueError\<close> of the source, and with a
  selector whose normalised form is not a key of the registry it ends with a \<^verbatim>\<open>KeyError\<close>;
  in both cases the module is still in its initial state: no builder instantiated, no
  app built, nothing printed, no web function registered.
\<close>

theorem C2_configuration_errors:
  "main None tokens_json =
     (Some (ValueError ''Environment variable `APP` was not set''), initial_state) \<and>
   (APP_REGISTRY (strip (lower s)) = None \<longrightarrow>
      main (Some s) tokens_json = (Some (KeyError (strip (lower s))), initial_state)) \<and>
   app_builder initial_state = None \<and> built_app initial_state = None \<and>
   stdout initial_state = [] \<and> ui initial_state = None"
  by (simp add: main_def initial_state_def Let_def)

theorem C2_configuration_errors_witness:
  "APP_REGISTRY (strip (lower ''sdxl'')) = None \<and>
   main (Some ''sdxl'') (Some some_tokens) = (Some (KeyError ''sdxl''), initial_state) \<and>
   main None (Some some_tokens) =
     (Some (ValueError ''Environment variable `APP` was not set''), initial_state)"
proof -
  have n: "strip (lower ''sdxl'') = ''sdxl''" by code_simp
  have k: "APP_REGISTRY (strip (lower ''sdxl'')) = None"
    unfolding n by (simp add: APP_REGISTRY_def APP_REGISTRY_items_def)
  show ?thesis
    using k C2_configuration_errors [of "Some some_tokens" "''sdxl''"] by (simp add: n)
qed

text \<open>
  C10: the key looked up is the selector lowercased and then stripped. When that key is in
  the registry, the module instantiates the builder class registered under it and raises
  no \<^verbatim>\<open>KeyError\<close>; when it is not, the module ends with a \<^verbatim>\<open>KeyError\<close> in its initial state.
  A selector made of white space, a string whose lowercased form is a key, and white space
  again is normalised to that key.
\<close>

theorem C10_normalised_selection:
  "(APP_REGISTRY (strip (lower s)) = Some C \<longrightarrow>
      (\<exists>b. app_builder (snd (main (Some s) tokens_json)) = Some b \<and> cls b = cls (new C) \<and>
            gpu b = gpu (new C) \<and> app_name b = app_name (new C)) \<and>
      (\<forall>k. fst (main (Some s) tokens_json) \<noteq> Some (KeyError k))) \<and>
   (APP_REGISTRY (strip (lower s)) = None \<longrightarrow>
      main (Some s) tokens_json = (Some (KeyError (strip (lower s))), initial_state)) \<and>
   ((\<forall>c\<in>set pre. isspace c) \<and> (\<forall>c\<in>set post. isspace c) \<and>
    APP_REGISTRY (lower mid) = Some C' \<longrightarrow>
      strip (lower (pre @ mid @ post)) = lower mid)"
proof (intro conjI impI)
  assume sel: "APP_REGISTRY (strip (lower s)) = Some C"
  show "\<exists>b. app_builder (snd (main (Some s) tokens_json)) = Some b \<and> cls b = cls (new C) \<and>
            gpu b = gpu (new C) \<and> app_name b = app_name (new C)"
  proof (cases tokens_json)
    case None
    then show ?thesis using main_unreadable_tokens [OF sel] by simp
  next
    case (Some toks)
    obtain b where b: "build_image_and_volumes (new C) False (Some toks) = Inr b"
      using pipeline_result by blast
    show ?thesis
      using Some main_selected [OF sel b] pipeline_fields [OF b] by simp
  qed
  show "\<forall>k. fst (main (Some s) tokens_json) \<noteq> Some (KeyError k)"
  proof (cases tokens_json)
    case None
    then show ?thesis using main_unreadable_tokens [OF sel] by simp
  next
    case (Some toks)
    obtain b where b: "build_image_and_volumes (new C) False (Some toks) = Inr b"
      using pipeline_result by blast
    show ?thesis
      using Some main_selected [OF sel b] by simp
  qed
next
  assume "APP_REGISTRY (strip (lower s)) = None"
  then show "main (Some s) tokens_json = (Some (KeyError (strip (lower s))), initial_state)"
    by (simp add: main_def Let_def)
next
  assume "(\<forall>c\<in>set pre. isspace c) \<and> (\<forall>c\<in>set post. isspace c) \<and>
    APP_REGISTRY (lower mid) = Some C'"
  then show "strip (lower (pre @ mid @ post)) = lower mid"
    using strip_lower_padded by blast
qed

theorem C10_normalised_selection_witness:
  "APP_REGISTRY (strip (lower ''FLUX '')) = Some FluxComfyAppBuilder \<and>
   (\<exists>b. app_builder (snd (main (Some ''FLUX '') (Some some_tokens))) = Some b \<and>
        cls b = FluxComfyAppBuilder \<and> gpu b = ''T4'' \<and> app_name b = ''flux-comfyui'') \<and>
   APP_REGISTRY (strip (lower ''sdxl'')) = None \<and>
   main (Some ''sdxl'') (Some some_tokens) = (Some (KeyError ''sdxl''), initial_state) \<and>
   list_all isspace '' '' \<and>
   APP_REGISTRY (lower ''Wan'') = Some WanComfyAppBuilder \<and>
   strip (lower ('' '' @ ''Wan'' @ [])) = ''wan''"
proof -
  have n1: "strip (lower ''FLUX '') = ''flux''" and n2: "strip (lower ''sdxl'') = ''sdxl''"
    and n3: "lower ''Wan'' = ''wan''"
    by code_simp+
  have r: "APP_REGISTRY ''flux'' = Some FluxComfyAppBuilder" "APP_REGISTRY ''sdxl'' = None"
    "APP_REGISTRY ''wan'' = Some WanComfyAppBuilder"
    by (simp_all add: APP_REGISTRY_def APP_REGISTRY_items_def)
  have sp: "\<forall>c\<in>set '' ''. isspace c" "\<forall>c\<in>set []. isspace c"
    by (simp_all add: isspace_def)
  from C10_normalised_selection
         [of "''FLUX ''" FluxComfyAppBuilder "Some some_tokens" "'' ''" "[]" "''Wan''"
             WanComfyAppBuilder]
       C10_normalised_selection
         [of "''sdxl''" FluxComfyAppBuilder "Some some_tokens" "'' ''" "[]" "''Wan''"
             WanComfyAppBuilder]
  show ?thesis
    using r sp by (simp add: n1 n2 n3 init_defs)
qed

section \<open>The download helpers\<close>

lemmas reading_defs = link_cmds_def created_links_def cached_paths_def cache_keys_def

lemmas helper_defs =
  download_hf_file_def download_hf_snapshot_def download_wget_file_def
  print_def hub_call_def subprocess_run_def

lemma hub_result_good_world: "hub_result good_world tr req = Some (hub_path req)"
  by (simp add: good_world_def)

lemma exit_status_good_world: "exit_status good_world tr cmd = 0"
  by (simp add: exit_status_def sh_status_def simple_command_status_def good_world_def
      split: list.split)




lemma helpers_once:
  "length (cache_keys (drop (length tr) (snd (download_hf_file W repo fn cd sd sfn tok tr)))) \<le> 1"
  "length (link_cmds (drop (length tr) (snd (download_hf_file W repo fn cd sd sfn tok tr)))) \<le> 1"
  "length (cache_keys (drop (length tr) (snd (download_hf_snapshot W repo dn cd sd ap ip tr)))) \<le> 1"
  "length (link_cmds (drop (length tr) (snd (download_hf_snapshot W repo dn cd sd ap ip tr)))) \<le> 1"
  "length (cache_keys (drop (length tr) (snd (download_wget_file W url fn cd sd tr)))) \<le> 1"
  "length (link_cmds (drop (length tr) (snd (download_wget_file W url fn cd sd tr)))) \<le> 1"
  by (simp_all add: helper_defs reading_defs Let_def split: option.split)

lemma helpers_paired:
  "map fst (link_cmds (drop (length tr) (snd (download_hf_file W repo fn cd sd sfn tok tr)))) =
     cached_paths (drop (length tr) (snd (download_hf_file W repo fn cd sd sfn tok tr)))"
  "map fst (link_cmds (drop (length tr) (snd (download_hf_snapshot W repo dn cd sd ap ip tr)))) =
     cached_paths (drop (length tr) (snd (download_hf_snapshot W repo dn cd sd ap ip tr)))"
  "map fst (link_cmds (drop (length tr) (snd (download_wget_file W url fn cd sd tr)))) =
     cached_paths (drop (length tr) (snd (download_wget_file W url fn cd sd tr)))"
  by (simp_all add: helper_defs reading_defs Let_def split: option.split)

section \<open>Sequences of downloads\<close>

lemma disciplinedI:
  assumes "\<And>tr. \<exists>new. snd (m tr) = tr @ new \<and>
                 map fst (link_cmds new) = cached_paths new \<and>
                 \<not> list_ex failed (butlast new) \<and>
                 (fst (m tr) = Inr () \<longrightarrow> \<not> list_ex failed new)"
  shows "disciplined m"
  using assms by (simp add: disciplined_def)

lemma disciplined_download_hf_file [simp]:
  "disciplined (download_hf_file W repo filename cd sd sfn tok)"
  by (rule disciplinedI)
     (simp add: helper_defs reading_defs Let_def split: option.split)

lemma disciplined_download_hf_snapshot [simp]:
  "disciplined (download_hf_snapshot W repo dir_name cd sd ap ip)"
  by (rule disciplinedI)
     (simp add: helper_defs reading_defs Let_def split: option.split)

lemma disciplined_download_wget_file [simp]:
  "disciplined (download_wget_file W url filename cd sd)"
  by (rule disciplinedI)
     (simp add: helper_defs reading_defs Let_def split: option.split)

lemma disciplined_mkdir [simp]:
  "disciplined (subprocess_run W (Mkdir_p d) True)"
  by (rule disciplinedI) (simp add: helper_defs reading_defs Let_def)

lemma disciplined_base [simp]: "disciplined (ComfyAppBuilder_hf_download W self toks)"
  by (rule disciplinedI) (simp add: ComfyAppBuilder_hf_download_def reading_defs)

lemma disciplined_with_token [simp]:
  "(\<And>t. disciplined (f t)) \<Longrightarrow> disciplined (with_token toks key f)"
  unfolding disciplined_def with_token_def
  by (auto simp: reading_defs split: option.split)

lemma disciplined_run_all [simp]:
  "(\<forall>m\<in>set ms. disciplined m) \<Longrightarrow> disciplined (run_all ms)"
proof (induction ms)
  case Nil
  show ?case by (rule disciplinedI) (simp add: reading_defs)
next
  case (Cons m ms)
  then have dm: "disciplined m" and dms: "disciplined (run_all ms)" by simp_all
  show ?case
  proof (rule disciplinedI)
    fix tr
    from dm obtain n1 where n1: "snd (m tr) = tr @ n1"
      "map fst (link_cmds n1) = cached_paths n1" "\<not> list_ex failed (butlast n1)"
      "fst (m tr) = Inr () \<longrightarrow> \<not> list_ex failed n1"
      unfolding disciplined_def by blast
    show "\<exists>new. snd (run_all (m # ms) tr) = tr @ new \<and>
                 map fst (link_cmds new) = cached_paths new \<and>
                 \<not> list_ex failed (butlast new) \<and>
                 (fst (run_all (m # ms) tr) = Inr () \<longrightarrow> \<not> list_ex failed new)"
    proof (cases "fst (m tr)")
      case (Inl e)
      then have "run_all (m # ms) tr = (Inl e, tr @ n1)"
        using n1(1) by (cases "m tr") simp
      with n1 show ?thesis by auto
    next
      case (Inr u)
      then have r: "run_all (m # ms) tr = run_all ms (tr @ n1)"
        using n1(1) by (cases "m tr") simp
      from dms obtain n2 where n2: "snd (run_all ms (tr @ n1)) = (tr @ n1) @ n2"
        "map fst (link_cmds n2) = cached_paths n2" "\<not> list_ex failed (butlast n2)"
        "fst (run_all ms (tr @ n1)) = Inr () \<longrightarrow> \<not> list_ex failed n2"
        unfolding disciplined_def by blast
      from Inr n1(4) have nf: "\<not> list_ex failed n1" by simp
      have "\<not> list_ex failed (butlast (n1 @ n2))"
        using nf n2(3) by (auto simp: butlast_append list_ex_iff dest: in_set_butlastD)
      moreover have "map fst (link_cmds (n1 @ n2)) = cached_paths (n1 @ n2)"
        using n1(2) n2(2) by (simp add: reading_defs)
      ultimately show ?thesis
        using r n2(1,4) nf by (intro exI [of _ "n1 @ n2"]) (auto simp: list_ex_iff)
    qed
  qed
qed

lemmas hf_download_defs =
  hf_download_def ACEStepComfyAppBuilder_hf_download_def
  ACEStepComfyAppBuilder_ace_step_download_def ACEStepComfyAppBuilder_qwen_download_def
  FluxComfyAppBuilder_hf_download_def KritaComfyAppBuilder_hf_download_def
  KritaComfyAppBuilder_illustrious_download_def KritaComfyAppBuilder_clip_vision_download_def
  KritaComfyAppBuilder_upscale_download_def KritaComfyAppBuilder_inpaint_download_def
  KritaComfyAppBuilder_controlnet_download_def KritaComfyAppBuilder_ipadapter_download_def
  QwenComfyAppBuilder_hf_download_def WanComfyAppBuilder_hf_download_def

lemma disciplined_hf_download: "disciplined (hf_download W self toks)"
  by (simp add: hf_download_defs Let_def split: builder_class.split)

lemma hf_download_extends:
  "\<exists>new. snd (hf_download W self toks tr) = tr @ new \<and>
         map fst (link_cmds new) = cached_paths new \<and>
         \<not> list_ex failed (butlast new) \<and>
         (fst (hf_download W self toks tr) = Inr () \<longrightarrow> \<not> list_ex failed new)"
  using disciplined_hf_download [of W self toks] unfolding disciplined_def by blast

text \<open>
  C7, on the code: the URL of the video workload's \<^verbatim>\<open>download_wget_file\<close> call is pasted
  unquoted into the command line, so the shell ends the \<^verbatim>\<open>wget\<close> command at the first \<^verbatim>\<open>&\<close>
  of the URL and starts it in the background on the URL cut there; the command in the
  foreground is the assignment \<^verbatim>\<open>token=...\<close>. In a world where \<^verbatim>\<open>wget\<close> exits with status 1 the
  line still exits with status 0, the helper issues the link and returns normally, and so
  does the whole download stage. With the URL of the image workload's upscale model,
  which has no \<^verbatim>\<open>&\<close>, the same failure raises \<^verbatim>\<open>CalledProcessError\<close> before any link.
\<close>

theorem C7_wget_failure_not_raised:
  "background_commands
     (command_line
        (Wget_q_O ''/cache/liveWallpaperFast_i2v14B720P.gguf''
           ''https://civitai.com/api/download/models/1873761?type=Model&format=GGUF&size=full&fp=fp32&token=cv_xyz'')) =
     [[''wget'', ''-q'', ''-O'', ''/cache/liveWallpaperFast_i2v14B720P.gguf'',
       ''https://civitai.com/api/download/models/1873761?type=Model''],
      [''format=GGUF''], [''size=full''], [''fp=fp32'']] \<and>
   foreground_command
     (command_line
        (Wget_q_O ''/cache/liveWallpaperFast_i2v14B720P.gguf''
           ''https://civitai.com/api/download/models/1873761?type=Model&format=GGUF&size=full&fp=fp32&token=cv_xyz'')) =
     [''token=cv_xyz''] \<and>
   program_status wget_fails_world []
     [''wget'', ''-q'', ''-O'', ''/cache/liveWallpaperFast_i2v14B720P.gguf'',
      ''https://civitai.com/api/download/models/1873761?type=Model''] = 1 \<and>
   download_wget_file wget_fails_world
     ''https://civitai.com/api/download/models/1873761?type=Model&format=GGUF&size=full&fp=fp32&token=cv_xyz''
     ''liveWallpaperFast_i2v14B720P.gguf'' ''/cache''
     ''/root/comfy/ComfyUI/models/diffusion_models'' [] =
     (Inr (),
      [Printed ''Downloading https://civitai.com/api/download/models/1873761?type=Model&format=GGUF&size=full&fp=fp32&token=cv_xyz'',
       Ran (Wget_q_O ''/cache/liveWallpaperFast_i2v14B720P.gguf''
              ''https://civitai.com/api/download/models/1873761?type=Model&format=GGUF&size=full&fp=fp32&token=cv_xyz'') 0,
       Ran (Ln_s ''/cache/liveWallpaperFast_i2v14B720P.gguf''
              ''/root/comfy/ComfyUI/models/diffusion_models/liveWallpaperFast_i2v14B720P.gguf'') 0]) \<and>
   fst (hf_download wget_fails_world (new WanComfyAppBuilder) some_tokens []) = Inr () \<and>
   download_wget_file wget_fails_world
     ''https://objectstorage.us-phoenix-1.oraclecloud.com/n/ax6ygfvpvzka/b/open-modeldb-files/o/4x-NMKD-YandereNeo.pth''
     ''4x-NMKD-YandereNeo.pth'' ''/cache'' ''/root/comfy/ComfyUI/models/upscale_models'' [] =
     (Inl (CalledProcessError 1),
      [Printed ''Downloading https://objectstorage.us-phoenix-1.oraclecloud.com/n/ax6ygfvpvzka/b/open-modeldb-files/o/4x-NMKD-YandereNeo.pth'',
       Ran (Wget_q_O ''/cache/4x-NMKD-YandereNeo.pth''
              ''https://objectstorage.us-phoenix-1.oraclecloud.com/n/ax6ygfvpvzka/b/open-modeldb-files/o/4x-NMKD-YandereNeo.pth'') 1])"
  by code_simp

text \<open>
  C4: for a builder of any class, the layers that the base class's \<^verbatim>\<open>_build_image\<close>,
  \<^verbatim>\<open>_install_comfy_nodes\<close> and \<^verbatim>\<open>_post_install_dep\<close> produce are a prefix of the layers that the
  builder's own method produces from the same image, and the events of the base class's
  \<^verbatim>\<open>_hf_download\<close> are a prefix of the events of the builder's own; so every layer of the
  base stage is a layer of the builder's stage.
\<close>

theorem C4_overrides_extend_base:
  "prefix (ComfyAppBuilder_build_image self) (build_image self) \<and>
   prefix (ComfyAppBuilder_install_comfy_nodes self img) (install_comfy_nodes self img) \<and>
   prefix (ComfyAppBuilder_post_install_dep self img) (post_install_dep self img) \<and>
   prefix (snd (ComfyAppBuilder_hf_download W self toks tr)) (snd (hf_download W self toks tr)) \<and>
   set (ComfyAppBuilder_build_image self) \<subseteq> set (build_image self) \<and>
   set (ComfyAppBuilder_install_comfy_nodes self img) \<subseteq> set (install_comfy_nodes self img) \<and>
   set (ComfyAppBuilder_post_install_dep self img) \<subseteq> set (post_install_dep self img)"
proof -
  have 1: "prefix (ComfyAppBuilder_build_image self) (build_image self)"
    by (simp add: stage_defs image_defs Let_def split: builder_class.split)
  have 2: "prefix (ComfyAppBuilder_install_comfy_nodes self img) (install_comfy_nodes self img)"
    by (simp add: stage_defs image_defs Let_def split: builder_class.split)
  have 3: "prefix (ComfyAppBuilder_post_install_dep self img) (post_install_dep self img)"
    by (simp add: stage_defs image_defs Let_def split: builder_class.split)
  have 4: "prefix (snd (ComfyAppBuilder_hf_download W self toks tr)) (snd (hf_download W self toks tr))"
    using hf_download_extends [of W self toks tr]
    by (auto simp: ComfyAppBuilder_hf_download_def)
  from 1 2 3 4 show ?thesis
    by (auto dest: set_mono_prefix)
qed

theorem C4_overrides_extend_base_witness:
  "prefix (ComfyAppBuilder_build_image (new KritaComfyAppBuilder))
     (build_image (new KritaComfyAppBuilder)) \<and>
   build_image (new KritaComfyAppBuilder) =
     ComfyAppBuilder_build_image (new KritaComfyAppBuilder) @
     [Apt_install ''libgl1'', Apt_install ''libglib2.0-0''] \<and>
   prefix (snd (ComfyAppBuilder_hf_download good_world (new WanComfyAppBuilder) some_tokens []))
     (snd (hf_download good_world (new WanComfyAppBuilder) some_tokens []))"
  using C4_overrides_extend_base [of "new KritaComfyAppBuilder" "[]" good_world some_tokens "[]"]
    C4_overrides_extend_base [of "new WanComfyAppBuilder" "[]" good_world some_tokens "[]"]
  by (simp add: stage_defs image_defs init_defs Let_def)

section \<open>The download manifests\<close>

lemma yields_download_hf_file:
  "yields (download_hf_file W repo filename cd sd sfn tok)
     [sd @ ''/'' @ (case sfn of None \<Rightarrow> filename | Some s \<Rightarrow> s)] [Hub_file repo filename]"
  unfolding yields_def
  by (auto simp: helper_defs reading_defs Let_def split: option.splits if_splits)

lemma yields_download_hf_snapshot:
  "yields (download_hf_snapshot W repo dir_name cd sd ap ip)
     [sd @ ''/'' @ dir_name] [Hub_snapshot repo]"
  unfolding yields_def
  by (auto simp: helper_defs reading_defs Let_def split: option.splits if_splits)

lemma yields_download_wget_file:
  "yields (download_wget_file W url filename cd sd)
     [sd @ ''/'' @ filename] [Wget_file (cd @ ''/'' @ filename)]"
  unfolding yields_def
  by (auto simp: helper_defs reading_defs Let_def split: option.splits if_splits)

lemma yields_mkdir: "yields (subprocess_run W (Mkdir_p d) True) [] []"
  unfolding yields_def
  by (auto simp: helper_defs reading_defs Let_def split: if_splits)

lemma yields_base: "yields (ComfyAppBuilder_hf_download W self toks) [] []"
  unfolding yields_def by (auto simp: ComfyAppBuilder_hf_download_def reading_defs)

lemma yields_with_token:
  "(\<And>t. yields (f t) ls ks) \<Longrightarrow> yields (with_token toks key f) ls ks"
  unfolding yields_def with_token_def by (auto split: option.splits)

lemma yields_run_all_Nil: "yields (run_all []) [] []"
  unfolding yields_def by (simp add: reading_defs)

lemma yields_run_all_Cons:
  assumes "yields m l1 k1" and "yields (run_all ms) l2 k2"
  shows "yields (run_all (m # ms)) (l1 @ l2) (k1 @ k2)"
  unfolding yields_def
proof (intro allI impI)
  fix tr tr1
  assume a: "run_all (m # ms) tr = (Inr (), tr1)"
  then obtain t where t: "m tr = (Inr (), t)" "run_all ms t = (Inr (), tr1)"
    by (cases "m tr") (auto split: sum.splits)
  from assms(1) t(1) obtain n1 where
    1: "t = tr @ n1" "map snd (link_cmds n1) = l1" "cache_keys n1 = k1"
    unfolding yields_def by blast
  from assms(2) t(2) obtain n2 where
    2: "tr1 = t @ n2" "map snd (link_cmds n2) = l2" "cache_keys n2 = k2"
    unfolding yields_def by blast
  show "\<exists>new. tr1 = tr @ new \<and> map snd (link_cmds new) = l1 @ l2 \<and> cache_keys new = k1 @ k2"
    using 1 2 by (intro exI [of _ "n1 @ n2"]) (simp add: reading_defs)
qed

lemmas yields_intros =
  yields_run_all_Cons yields_run_all_Nil yields_download_hf_file yields_download_hf_snapshot
  yields_download_wget_file yields_mkdir yields_base yields_with_token

lemma upt_8: "[0..<8] = [0, 1, 2, 3, 4, 5, 6, 7]"
  by code_simp

lemma upt_18: "[0..<18] = [0, 1, 2, 3, 4, 5, 6, 7, 8, 9, 10, 11, 12, 13, 14, 15, 16, 17]"
  by code_simp

lemma zfill_vals:
  "zfill (str (0 + 1)) 2 = ''01''" "zfill (str (1 + 1)) 2 = ''02''" "zfill (str (2 + 1)) 2 = ''03''"
  "zfill (str (3 + 1)) 2 = ''04''" "zfill (str (4 + 1)) 2 = ''05''" "zfill (str (5 + 1)) 2 = ''06''"
  "zfill (str (6 + 1)) 2 = ''07''" "zfill (str (7 + 1)) 2 = ''08''" "zfill (str (8 + 1)) 2 = ''09''"
  "zfill (str (9 + 1)) 2 = ''10''" "zfill (str (10 + 1)) 2 = ''11''" "zfill (str (11 + 1)) 2 = ''12''"
  "zfill (str (12 + 1)) 2 = ''13''" "zfill (str (13 + 1)) 2 = ''14''" "zfill (str (14 + 1)) 2 = ''15''"
  "zfill (str (15 + 1)) 2 = ''16''" "zfill (str (16 + 1)) 2 = ''17''" "zfill (str (17 + 1)) 2 = ''18''"
  by code_simp+

lemma hf_download_new:
  "hf_download W (new ComfyAppBuilder) toks = ComfyAppBuilder_hf_download W (new ComfyAppBuilder) toks"
  "hf_download W (new ACEStepComfyAppBuilder) toks =
     ACEStepComfyAppBuilder_hf_download W (new ACEStepComfyAppBuilder) toks"
  "hf_download W (new FluxComfyAppBuilder) toks =
     FluxComfyAppBuilder_hf_download W (new FluxComfyAppBuilder) toks"
  "hf_download W (new KritaComfyAppBuilder) toks =
     KritaComfyAppBuilder_hf_download W (new KritaComfyAppBuilder) toks"
  "hf_download W (new QwenComfyAppBuilder) toks =
     QwenComfyAppBuilder_hf_download W (new QwenComfyAppBuilder) toks"
  "hf_download W (new WanComfyAppBuilder) toks =
     WanComfyAppBuilder_hf_download W (new WanComfyAppBuilder) toks"
  by (simp_all add: hf_download_def init_defs)

lemmas manifest_defs =
  ACEStepComfyAppBuilder_hf_download_def
  ACEStepComfyAppBuilder_ace_step_download_def ACEStepComfyAppBuilder_qwen_download_def
  FluxComfyAppBuilder_hf_download_def KritaComfyAppBuilder_hf_download_def
  KritaComfyAppBuilder_illustrious_download_def KritaComfyAppBuilder_clip_vision_download_def
  KritaComfyAppBuilder_upscale_download_def KritaComfyAppBuilder_inpaint_download_def
  KritaComfyAppBuilder_controlnet_download_def KritaComfyAppBuilder_ipadapter_download_def
  QwenComfyAppBuilder_hf_download_def WanComfyAppBuilder_hf_download_def
  Let_def upt_8 upt_18 list.map append.simps zfill_vals

lemma manifest_base:
  "\<exists>ls ks. yields (hf_download W (new ComfyAppBuilder) toks) ls ks \<and>
     distinct ls \<and> distinct ks \<and> length ls = length ks \<and>
     list_all (prefix (comfy_models_dir (new ComfyAppBuilder) @ ''/'')) ls"
  apply (intro exI conjI)
      apply (unfold hf_download_new)
      apply (rule yields_intros)+
     apply (simp_all add: init_defs Let_def)
  done

lemma manifest_ace_step:
  "\<exists>ls ks. yields (hf_download W (new ACEStepComfyAppBuilder) toks) ls ks \<and>
     distinct ls \<and> distinct ks \<and> length ls = length ks \<and>
     list_all (prefix (comfy_models_dir (new ACEStepComfyAppBuilder) @ ''/'')) ls"
  apply (intro exI conjI)
      apply (unfold hf_download_new)
      apply (unfold manifest_defs)
      apply (rule yields_intros)+
     apply (simp_all add: init_defs Let_def)
  done

lemma manifest_flux:
  "\<exists>ls ks. yields (hf_download W (new FluxComfyAppBuilder) toks) ls ks \<and>
     distinct ls \<and> distinct ks \<and> length ls = length ks \<and>
     list_all (prefix (comfy_models_dir (new FluxComfyAppBuilder) @ ''/'')) ls"
  apply (intro exI conjI)
      apply (unfold hf_download_new)
      apply (unfold manifest_defs)
      apply (rule yields_intros)+
     apply (simp_all add: init_defs Let_def)
  done

lemma manifest_krita:
  "\<exists>ls ks. yields (hf_download W (new KritaComfyAppBuilder) toks) ls ks \<and>
     distinct ls \<and> distinct ks \<and> length ls = length ks \<and>
     list_all (prefix (comfy_models_dir (new KritaComfyAppBuilder) @ ''/'')) ls"
  apply (intro exI conjI)
      apply (unfold hf_download_new)
      apply (unfold manifest_defs)
      apply (rule yields_intros)+
     apply (simp_all add: init_defs Let_def)
  done

lemma manifest_qwen:
  "\<exists>ls ks. yields (hf_download W (new QwenComfyAppBuilder) toks) ls ks \<and>
     distinct ls \<and> distinct ks \<and> length ls = length ks \<and>
     list_all (prefix (comfy_models_dir (new QwenComfyAppBuilder) @ ''/'')) ls"
  apply (intro exI conjI)
      apply (unfold hf_download_new)
      apply (unfold manifest_defs)
      apply (rule yields_intros)+
     apply (simp_all add: init_defs Let_def)
  done

lemma manifest_wan:
  "\<exists>ls ks. yields (hf_download W (new WanComfyAppBuilder) toks) ls ks \<and>
     distinct ls \<and> distinct ks \<and> length ls = length ks \<and>
     list_all (prefix (comfy_models_dir (new WanComfyAppBuilder) @ ''/'')) ls"
  apply (intro exI conjI)
      apply (unfold hf_download_new)
      apply (unfold manifest_defs)
      apply (rule yields_intros)+
     apply (simp_all add: init_defs Let_def)
  done

lemma manifest:
  "\<exists>ls ks. yields (hf_download W (new C) toks) ls ks \<and>
     distinct ls \<and> distinct ks \<and> length ls = length ks \<and>
     list_all (prefix (comfy_models_dir (new C) @ ''/'')) ls"
  by (cases C)
     (simp_all only: manifest_base manifest_ace_step manifest_flux manifest_krita manifest_qwen
        manifest_wan)

lemma created_links_no_failure:
  "\<not> list_ex failed tr \<Longrightarrow> created_links tr = link_cmds tr"
proof (induction tr)
  case Nil
  show ?case by (simp add: reading_defs)
next
  case (Cons e tr)
  then show ?case
    by (cases e rule: created_link_of.cases) (simp_all add: reading_defs)
qed

text \<open>
  C5: a call of any of the three helpers issues at most one link command, and the link
  commands it issues are one for each file the call put into the cache, with that file's
  path as the target. In every run of the download stage of any class, also one that ends
  with an exception, the link commands issued are, in order, one for each file put into
  the cache, with that file's path as the target. When the stage returns normally every
  one of those links was created, no two links have the same path, no two fetches fill the
  same cache file, there are as many links as fetches, and every link lies under the model
  directory.
\<close>

theorem C5_one_link_per_download:
  assumes "hf_download W (new C) toks [] = (r, tr)"
  shows "map fst (link_cmds tr) = cached_paths tr \<and>
         (r = Inr () \<longrightarrow>
            created_links tr = link_cmds tr \<and>
            distinct (map snd (link_cmds tr)) \<and>
            distinct (cache_keys tr) \<and>
            length (link_cmds tr) = length (cache_keys tr) \<and>
            (\<forall>l\<in>set (map snd (link_cmds tr)). prefix (comfy_models_dir (new C) @ ''/'') l)) \<and>
         map fst (link_cmds (drop (length t) (snd (download_hf_file W repo fn cd sd sfn tok t)))) =
           cached_paths (drop (length t) (snd (download_hf_file W repo fn cd sd sfn tok t))) \<and>
         length (link_cmds (drop (length t) (snd (download_hf_file W repo fn cd sd sfn tok t)))) \<le> 1 \<and>
         map fst (link_cmds (drop (length t) (snd (download_hf_snapshot W repo dn cd sd ap ip t)))) =
           cached_paths (drop (length t) (snd (download_hf_snapshot W repo dn cd sd ap ip t))) \<and>
         length (link_cmds (drop (length t) (snd (download_hf_snapshot W repo dn cd sd ap ip t)))) \<le> 1 \<and>
         map fst (link_cmds (drop (length t) (snd (download_wget_file W url fn cd sd t)))) =
           cached_paths (drop (length t) (snd (download_wget_file W url fn cd sd t))) \<and>
         length (link_cmds (drop (length t) (snd (download_wget_file W url fn cd sd t)))) \<le> 1"
proof -
  from hf_download_extends [of W "new C" toks "[]"] assms
  have d: "map fst (link_cmds tr) = cached_paths tr" "r = Inr () \<longrightarrow> \<not> list_ex failed tr"
    by auto
  have "created_links tr = link_cmds tr \<and>
            distinct (map snd (link_cmds tr)) \<and>
            distinct (cache_keys tr) \<and>
            length (link_cmds tr) = length (cache_keys tr) \<and>
            (\<forall>l\<in>set (map snd (link_cmds tr)). prefix (comfy_models_dir (new C) @ ''/'') l)"
    if ok: "r = Inr ()"
  proof -
    from manifest [of W C toks] obtain ls ks where
      m: "yields (hf_download W (new C) toks) ls ks" "distinct ls" "distinct ks"
         "length ls = length ks" "list_all (prefix (comfy_models_dir (new C) @ ''/'')) ls"
      by blast
    from m(1) assms ok have e: "map snd (link_cmds tr) = ls" "cache_keys tr = ks"
      unfolding yields_def by (metis append_Nil)+
    have "length (link_cmds tr) = length ls"
      using e(1) by (metis length_map)
    with m e d(2) ok show ?thesis
      by (simp add: created_links_no_failure list_all_iff)
  qed
  then have stage: "r = Inr () \<longrightarrow>
            created_links tr = link_cmds tr \<and>
            distinct (map snd (link_cmds tr)) \<and>
            distinct (cache_keys tr) \<and>
            length (link_cmds tr) = length (cache_keys tr) \<and>
            (\<forall>l\<in>set (map snd (link_cmds tr)). prefix (comfy_models_dir (new C) @ ''/'') l)"
    by blast
  show ?thesis
    by (intro conjI; (rule d(1) stage helpers_paired helpers_once))
qed

lemma good_world_helpers:
  "download_hf_file good_world repo fn cd sd sfn tok tr =
     (Inr (),
      tr @ [Printed (''Downloading '' @ repo @ ''/'' @ fn),
            Fetched (Hf_hub_download repo fn cd tok) (Some (cd @ ''/'' @ repo @ ''/'' @ fn)),
            Ran (Ln_s (cd @ ''/'' @ repo @ ''/'' @ fn)
                   (sd @ ''/'' @ (case sfn of None \<Rightarrow> fn | Some n \<Rightarrow> n))) 0])"
  "download_wget_file good_world url fn cd sd tr =
     (Inr (),
      tr @ [Printed (''Downloading '' @ url), Ran (Wget_q_O (cd @ ''/'' @ fn) url) 0,
            Ran (Ln_s (cd @ ''/'' @ fn) (sd @ ''/'' @ fn)) 0])"
  by (simp_all add: helper_defs hub_result_good_world exit_status_good_world Let_def)

lemma good_wan_run_from:
  "hf_download good_world (new WanComfyAppBuilder) some_tokens tr =
     (Inr (),
      tr @
      [Printed ''Downloading Comfy-Org/Wan_2.1_ComfyUI_repackaged/split_files/text_encoders/umt5_xxl_fp8_e4m3fn_scaled.safetensors'',
       Fetched (Hf_hub_download ''Comfy-Org/Wan_2.1_ComfyUI_repackaged''
                  ''split_files/text_encoders/umt5_xxl_fp8_e4m3fn_scaled.safetensors''
                  ''/cache'' None)
         (Some ''/cache/Comfy-Org/Wan_2.1_ComfyUI_repackaged/split_files/text_encoders/umt5_xxl_fp8_e4m3fn_scaled.safetensors''),
       Ran (Ln_s ''/cache/Comfy-Org/Wan_2.1_ComfyUI_repackaged/split_files/text_encoders/umt5_xxl_fp8_e4m3fn_scaled.safetensors''
              ''/root/comfy/ComfyUI/models/text_encoders/umt5_xxl_fp8_e4m3fn_scaled.safetensors'') 0,
       Printed ''Downloading Comfy-Org/Wan_2.1_ComfyUI_repackaged/split_files/vae/wan_2.1_vae.safetensors'',
       Fetched (Hf_hub_download ''Comfy-Org/Wan_2.1_ComfyUI_repackaged''
                  ''split_files/vae/wan_2.1_vae.safetensors'' ''/cache'' None)
         (Some ''/cache/Comfy-Org/Wan_2.1_ComfyUI_repackaged/split_files/vae/wan_2.1_vae.safetensors''),
       Ran (Ln_s ''/cache/Comfy-Org/Wan_2.1_ComfyUI_repackaged/split_files/vae/wan_2.1_vae.safetensors''
              ''/root/comfy/ComfyUI/models/vae/wan_2.1_vae.safetensors'') 0,
       Printed ''Downloading Comfy-Org/Wan_2.1_ComfyUI_repackaged/split_files/clip_vision/clip_vision_h.safetensors'',
       Fetched (Hf_hub_download ''Comfy-Org/Wan_2.1_ComfyUI_repackaged''
                  ''split_files/clip_vision/clip_vision_h.safetensors'' ''/cache'' None)
         (Some ''/cache/Comfy-Org/Wan_2.1_ComfyUI_repackaged/split_files/clip_vision/clip_vision_h.safetensors''),
       Ran (Ln_s ''/cache/Comfy-Org/Wan_2.1_ComfyUI_repackaged/split_files/clip_vision/clip_vision_h.safetensors''
              ''/root/comfy/ComfyUI/models/clip_vision/clip_vision_h.safetensors'') 0,
       Printed ''Downloading https://civitai.com/api/download/models/1873761?type=Model&format=GGUF&size=full&fp=fp32&token=cv_xyz'',
       Ran (Wget_q_O ''/cache/liveWallpaperFast_i2v14B720P.gguf''
              ''https://civitai.com/api/download/models/1873761?type=Model&format=GGUF&size=full&fp=fp32&token=cv_xyz'') 0,
       Ran (Ln_s ''/cache/liveWallpaperFast_i2v14B720P.gguf''
              ''/root/comfy/ComfyUI/models/diffusion_models/liveWallpaperFast_i2v14B720P.gguf'') 0])"
  unfolding hf_download_new
  by (simp add: WanComfyAppBuilder_hf_download_def ComfyAppBuilder_hf_download_def
      with_token_def some_tokens_def good_world_helpers init_defs Let_def)

lemmas good_wan_run_init = good_wan_run_from [unfolded new.simps]

lemma good_wan_run:
  "fst (hf_download good_world (new WanComfyAppBuilder) some_tokens []) = Inr ()"
  by (simp add: good_wan_run_init)

theorem C5_one_link_per_download_witness:
  "hf_download good_world (new WanComfyAppBuilder) some_tokens [] =
     (Inr (), snd (hf_download good_world (new WanComfyAppBuilder) some_tokens [])) \<and>
   map fst (link_cmds (snd (hf_download good_world (new WanComfyAppBuilder) some_tokens []))) =
     cached_paths (snd (hf_download good_world (new WanComfyAppBuilder) some_tokens [])) \<and>
   created_links (snd (hf_download good_world (new WanComfyAppBuilder) some_tokens [])) =
     link_cmds (snd (hf_download good_world (new WanComfyAppBuilder) some_tokens [])) \<and>
   distinct (map snd (link_cmds (snd (hf_download good_world (new WanComfyAppBuilder) some_tokens [])))) \<and>
   distinct (cache_keys (snd (hf_download good_world (new WanComfyAppBuilder) some_tokens []))) \<and>
   length (link_cmds (snd (hf_download good_world (new WanComfyAppBuilder) some_tokens []))) =
     length (cache_keys (snd (hf_download good_world (new WanComfyAppBuilder) some_tokens [])))"
proof -
  have h: "hf_download good_world (new WanComfyAppBuilder) some_tokens [] =
     (Inr (), snd (hf_download good_world (new WanComfyAppBuilder) some_tokens []))"
    using good_wan_run by (simp add: prod_eq_iff)
  from C5_one_link_per_download [OF h] h show ?thesis by simp
qed

section \<open>The video workload\<close>

lemma wan_run:
  assumes "hf_download W (new WanComfyAppBuilder) toks [] = (Inr (), tr)"
  shows "\<exists>p1 p2 p3 t. map_of toks ''CIVITAI_TOKEN'' = Some t \<and>
    tr = [Printed ''Downloading Comfy-Org/Wan_2.1_ComfyUI_repackaged/split_files/text_encoders/umt5_xxl_fp8_e4m3fn_scaled.safetensors'',
          Fetched (Hf_hub_download ''Comfy-Org/Wan_2.1_ComfyUI_repackaged''
                     ''split_files/text_encoders/umt5_xxl_fp8_e4m3fn_scaled.safetensors''
                     ''/cache'' None) (Some p1),
          Ran (Ln_s p1 ''/root/comfy/ComfyUI/models/text_encoders/umt5_xxl_fp8_e4m3fn_scaled.safetensors'') 0,
          Printed ''Downloading Comfy-Org/Wan_2.1_ComfyUI_repackaged/split_files/vae/wan_2.1_vae.safetensors'',
          Fetched (Hf_hub_download ''Comfy-Org/Wan_2.1_ComfyUI_repackaged''
                     ''split_files/vae/wan_2.1_vae.safetensors'' ''/cache'' None) (Some p2),
          Ran (Ln_s p2 ''/root/comfy/ComfyUI/models/vae/wan_2.1_vae.safetensors'') 0,
          Printed ''Downloading Comfy-Org/Wan_2.1_ComfyUI_repackaged/split_files/clip_vision/clip_vision_h.safetensors'',
          Fetched (Hf_hub_download ''Comfy-Org/Wan_2.1_ComfyUI_repackaged''
                     ''split_files/clip_vision/clip_vision_h.safetensors'' ''/cache'' None) (Some p3),
          Ran (Ln_s p3 ''/root/comfy/ComfyUI/models/clip_vision/clip_vision_h.safetensors'') 0,
          Printed (''Downloading https://civitai.com/api/download/models/1873761?type=Model&format=GGUF&size=full&fp=fp32&token='' @ t),
          Ran (Wget_q_O ''/cache/liveWallpaperFast_i2v14B720P.gguf''
                 (''https://civitai.com/api/download/models/1873761?type=Model&format=GGUF&size=full&fp=fp32&token='' @ t)) 0,
          Ran (Ln_s ''/cache/liveWallpaperFast_i2v14B720P.gguf''
                 ''/root/comfy/ComfyUI/models/diffusion_models/liveWallpaperFast_i2v14B720P.gguf'') 0]"
  using assms unfolding hf_download_new
  by (auto simp: WanComfyAppBuilder_hf_download_def
        ComfyAppBuilder_hf_download_def with_token_def helper_defs init_defs Let_def
      split: option.splits if_splits)

text \<open>
  C9: when the download stage of the video workload returns normally, exactly one of the
  links it created lies in the \<^verbatim>\<open>diffusion_models\<close> directory of the model root and exactly
  one in the \<^verbatim>\<open>text_encoders\<close> directory. The first points to the output path of the
  \<^verbatim>\<open>wget\<close> command line for the workload's URL, the second to the path the hub client returned for the
  workload's text-encoder file; the stage created four links and made four fetches in all.
\<close>

theorem C9_wan_links:
  assumes "hf_download W (new WanComfyAppBuilder) toks [] = (Inr (), tr)"
  shows "\<exists>p t. map_of toks ''CIVITAI_TOKEN'' = Some t \<and>
    filter (\<lambda>(path, link). dirname link =
                              comfy_models_dir (new WanComfyAppBuilder) @ ''/text_encoders'')
      (created_links tr) =
      [(p, ''/root/comfy/ComfyUI/models/text_encoders/umt5_xxl_fp8_e4m3fn_scaled.safetensors'')] \<and>
    Fetched (Hf_hub_download ''Comfy-Org/Wan_2.1_ComfyUI_repackaged''
               ''split_files/text_encoders/umt5_xxl_fp8_e4m3fn_scaled.safetensors''
               ''/cache'' None) (Some p) \<in> set tr \<and>
    filter (\<lambda>(path, link). dirname link =
                              comfy_models_dir (new WanComfyAppBuilder) @ ''/diffusion_models'')
      (created_links tr) =
      [(''/cache/liveWallpaperFast_i2v14B720P.gguf'',
        ''/root/comfy/ComfyUI/models/diffusion_models/liveWallpaperFast_i2v14B720P.gguf'')] \<and>
    Ran (Wget_q_O ''/cache/liveWallpaperFast_i2v14B720P.gguf''
           (''https://civitai.com/api/download/models/1873761?type=Model&format=GGUF&size=full&fp=fp32&token='' @ t))
        0 \<in> set tr \<and>
    length (created_links tr) = 4 \<and> length (cache_keys tr) = 4"
proof -
  from wan_run [OF assms] obtain p1 p2 p3 t where
    t: "map_of toks ''CIVITAI_TOKEN'' = Some t" and
    tr: "tr = [Printed ''Downloading Comfy-Org/Wan_2.1_ComfyUI_repackaged/split_files/text_encoders/umt5_xxl_fp8_e4m3fn_scaled.safetensors'',
          Fetched (Hf_hub_download ''Comfy-Org/Wan_2.1_ComfyUI_repackaged''
                     ''split_files/text_encoders/umt5_xxl_fp8_e4m3fn_scaled.safetensors''
                     ''/cache'' None) (Some p1),
          Ran (Ln_s p1 ''/root/comfy/ComfyUI/models/text_encoders/umt5_xxl_fp8_e4m3fn_scaled.safetensors'') 0,
          Printed ''Downloading Comfy-Org/Wan_2.1_ComfyUI_repackaged/split_files/vae/wan_2.1_vae.safetensors'',
          Fetched (Hf_hub_download ''Comfy-Org/Wan_2.1_ComfyUI_repackaged''
                     ''split_files/vae/wan_2.1_vae.safetensors'' ''/cache'' None) (Some p2),
          Ran (Ln_s p2 ''/root/comfy/ComfyUI/models/vae/wan_2.1_vae.safetensors'') 0,
          Printed ''Downloading Comfy-Org/Wan_2.1_ComfyUI_repackaged/split_files/clip_vision/clip_vision_h.safetensors'',
          Fetched (Hf_hub_download ''Comfy-Org/Wan_2.1_ComfyUI_repackaged''
                     ''split_files/clip_vision/clip_vision_h.safetensors'' ''/cache'' None) (Some p3),
          Ran (Ln_s p3 ''/root/comfy/ComfyUI/models/clip_vision/clip_vision_h.safetensors'') 0,
          Printed (''Downloading https://civitai.com/api/download/models/1873761?type=Model&format=GGUF&size=full&fp=fp32&token='' @ t),
          Ran (Wget_q_O ''/cache/liveWallpaperFast_i2v14B720P.gguf''
                 (''https://civitai.com/api/download/models/1873761?type=Model&format=GGUF&size=full&fp=fp32&token='' @ t)) 0,
          Ran (Ln_s ''/cache/liveWallpaperFast_i2v14B720P.gguf''
                 ''/root/comfy/ComfyUI/models/diffusion_models/liveWallpaperFast_i2v14B720P.gguf'') 0]"
    by blast
  show ?thesis
    apply (rule exI [of _ p1])
    apply (rule exI [of _ t])
    apply (simp add: t)
    apply (simp add: tr reading_defs dirname_def init_defs)
    done
qed

theorem C9_wan_links_witness:
  "hf_download good_world (new WanComfyAppBuilder) some_tokens [] =
     (Inr (), snd (hf_download good_world (new WanComfyAppBuilder) some_tokens [])) \<and>
   (\<exists>p t. map_of some_tokens ''CIVITAI_TOKEN'' = Some t \<and>
    filter (\<lambda>(path, link). dirname link =
                              comfy_models_dir (new WanComfyAppBuilder) @ ''/text_encoders'')
      (created_links (snd (hf_download good_world (new WanComfyAppBuilder) some_tokens []))) =
      [(p, ''/root/comfy/ComfyUI/models/text_encoders/umt5_xxl_fp8_e4m3fn_scaled.safetensors'')] \<and>
    filter (\<lambda>(path, link). dirname link =
                              comfy_models_dir (new WanComfyAppBuilder) @ ''/diffusion_models'')
      (created_links (snd (hf_download good_world (new WanComfyAppBuilder) some_tokens []))) =
      [(''/cache/liveWallpaperFast_i2v14B720P.gguf'',
        ''/root/comfy/ComfyUI/models/diffusion_models/liveWallpaperFast_i2v14B720P.gguf'')] \<and>
    length (created_links (snd (hf_download good_world (new WanComfyAppBuilder) some_tokens []))) = 4)"
proof -
  have h: "hf_download good_world (new WanComfyAppBuilder) some_tokens [] =
     (Inr (), snd (hf_download good_world (new WanComfyAppBuilder) some_tokens []))"
    using good_wan_run by (simp add: prod_eq_iff)
  from C9_wan_links [OF h] h show ?thesis by blast
qed

section \<open>Forcing the model download\<close>






end
